theory Spec2Isabelle
  imports Complex_Main "HOL-Library.Word" "HOL-Library.AList"
begin

section \<open>JavaScript values\<close>

text \<open>
  Argument text is a JavaScript string: a sequence of UTF-16 code units, and
  \<open>String.prototype.length\<close> counts code units. Command names, channel names, error
  codes and messages are plain tokens, kept as HOL strings. A Buffer is a byte
  sequence.
\<close>

type_synonym code_unit = "16 word"
type_synonym jsstring = "code_unit list"
type_synonym bytes = "8 word list"

text \<open>A JavaScript number as far as the client uses it: an integer or NaN.\<close>

datatype jsnum = Num int | NaN

text \<open>
  What the parser hands to \<open>return_reply\<close>, and what a completion sink receives:
  \<open>Str\<close> is a text reply, \<open>Buf\<close> a Buffer reply (its bytes as characters), \<open>Integer\<close>
  an integer reply, \<open>Arr\<close> a multi-bulk reply; \<open>Obj\<close> is the object built by
  \<open>reply_to_object\<close>, its properties in insertion order.
\<close>

datatype jsval =
    Undefined
  | Null
  | Str string
  | Buf string
  | Integer int
  | Arr "jsval list"
  | Obj "(string \<times> jsval) list"

datatype exn = TypeError | RangeError

fun is_array :: "jsval \<Rightarrow> bool" where
  "is_array (Arr xs) = True"
| "is_array v = False"

text \<open>\<open>xs[i]\<close> on a JavaScript array: \<open>undefined\<close> out of range.\<close>

definition idx :: "jsval list \<Rightarrow> nat \<Rightarrow> jsval" where
  "idx xs i = (if i < length xs then xs ! i else Undefined)"

text \<open>\<open>v[i]\<close> on a reply that \<open>return_reply\<close> found to be an array.\<close>

fun elem :: "jsval \<Rightarrow> nat \<Rightarrow> jsval" where
  "elem (Arr xs) i = idx xs i"
| "elem v i = Undefined"

subsection \<open>Decimal text of numbers\<close>

definition digit_char :: "nat \<Rightarrow> char" where
  "digit_char d = char_of (48 + d)"

fun show_nat :: "nat \<Rightarrow> string" where
  "show_nat n = (if n < 10 then [digit_char n] else show_nat (n div 10) @ [digit_char (n mod 10)])"

declare show_nat.simps [simp del]

definition show_int :: "int \<Rightarrow> string" where
  "show_int i = (if i < 0 then CHR ''-'' # show_nat (nat (- i)) else show_nat (nat i))"

definition is_digit :: "char \<Rightarrow> bool" where
  "is_digit ch = (48 \<le> (of_char ch :: nat) \<and> (of_char ch :: nat) \<le> 57)"

definition digits_value :: "string \<Rightarrow> int" where
  "digits_value s = foldl (\<lambda>acc ch. 10 * acc + int (of_char ch - 48)) 0 s"

text \<open>
  Unary plus on a string, for the strings a server sends as a channel count: an
  optional minus sign and decimal digits. Any other text is read as NaN.
\<close>

definition parse_decimal :: "string \<Rightarrow> jsnum" where
  "parse_decimal s =
     (case s of
        [] \<Rightarrow> NaN
      | ch # rest \<Rightarrow>
          if ch = CHR ''-'' then
            (if rest \<noteq> [] \<and> list_all is_digit rest then Num (- digits_value rest) else NaN)
          else if list_all is_digit s then Num (digits_value s) else NaN)"

text \<open>
  Unary plus, \<open>+v\<close>. The count of an acknowledgement is an integer reply, or its
  decimal text when the parser returns numbers as strings; arrays and objects do
  not occur there and are read as NaN.
\<close>

fun to_number :: "jsval \<Rightarrow> jsnum" where
  "to_number (Integer n) = Num n"
| "to_number Null = Num 0"
| "to_number Undefined = NaN"
| "to_number (Str s) = parse_decimal s"
| "to_number (Buf s) = parse_decimal s"
| "to_number (Arr xs) = NaN"
| "to_number (Obj ps) = NaN"

fun join_with :: "string \<Rightarrow> string list \<Rightarrow> string" where
  "join_with sep [] = []"
| "join_with sep [x] = x"
| "join_with sep (x # y # ys) = x @ sep @ join_with sep (y # ys)"

text \<open>
  The text of a value inside a template literal or string concatenation. On
  \<open>null\<close> and \<open>undefined\<close> a method call \<open>v.toString()\<close> throws instead; the
  callers below test for that first. Array elements that are \<open>null\<close> or
  \<open>undefined\<close> join as the empty string.
\<close>

fun template_text :: "jsval \<Rightarrow> string" where
  "template_text Undefined = ''undefined''"
| "template_text Null = ''null''"
| "template_text (Str s) = s"
| "template_text (Buf s) = s"
| "template_text (Integer n) = show_int n"
| "template_text (Arr xs) =
     join_with '','' (map (\<lambda>x. if x = Null \<or> x = Undefined then [] else template_text x) xs)"
| "template_text (Obj ps) = ''[object Object]''"

text \<open>\<open>v.toString()\<close>: a TypeError on \<open>null\<close> and \<open>undefined\<close>.\<close>

definition to_string :: "jsval \<Rightarrow> exn + string" where
  "to_string v = (if v = Null \<or> v = Undefined then Inl TypeError else Inr (template_text v))"

definition to_upper_char :: "char \<Rightarrow> char" where
  "to_upper_char ch =
     (if 97 \<le> (of_char ch :: nat) \<and> (of_char ch :: nat) \<le> 122
      then char_of ((of_char ch :: nat) - 32) else ch)"

definition to_upper :: "string \<Rightarrow> string" where
  "to_upper s = map to_upper_char s"


section \<open>Command arguments and their UTF-8 form\<close>

text \<open>
  One argument of a command, by the case \<open>internal_send_command\<close> makes of it:
  a string, a Buffer, a Date (with its \<open>toString()\<close> text), \<open>null\<close>, \<open>undefined\<close>,
  another object (with its \<open>toString()\<close> text), or any other value such as a number
  (with its text in a template literal).
\<close>

datatype arg =
    Text jsstring
  | Binary bytes
  | DateArg jsstring
  | NullArg
  | UndefinedArg
  | ObjectArg jsstring
  | OtherArg jsstring

text \<open>An entry of \<open>args_copy\<close>: a string or a Buffer.\<close>

datatype wire_arg = WText jsstring | WBuf bytes

definition str16 :: "string \<Rightarrow> jsstring" where
  "str16 s = map (\<lambda>ch. of_nat (of_char ch)) s"

definition replacement_bytes :: bytes where
  "replacement_bytes = [0xEF, 0xBF, 0xBD]"

text \<open>
  \<open>new Buffer(s, 'utf8')\<close>: one byte below U+0080, two below U+0800, four for a
  surrogate pair, three otherwise; a surrogate without its partner is written as
  U+FFFD.
\<close>

fun utf8_encode :: "jsstring \<Rightarrow> bytes" where
  "utf8_encode [] = []"
| "utf8_encode (u # us) =
     (let n = unat u in
      if n < 0x80 then of_nat n # utf8_encode us
      else if n < 0x800 then
        of_nat (0xC0 + n div 64) # of_nat (0x80 + n mod 64) # utf8_encode us
      else if 0xD800 \<le> n \<and> n < 0xDC00 then
        (case us of
           [] \<Rightarrow> replacement_bytes
         | l # rest \<Rightarrow>
             if 0xDC00 \<le> unat l \<and> unat l < 0xE000 then
               (let cp = 0x10000 + (n - 0xD800) * 1024 + (unat l - 0xDC00) in
                of_nat (0xF0 + cp div 262144) # of_nat (0x80 + (cp div 4096) mod 64)
                  # of_nat (0x80 + (cp div 64) mod 64) # of_nat (0x80 + cp mod 64)
                  # utf8_encode rest)
             else replacement_bytes @ utf8_encode us)
      else if 0xDC00 \<le> n \<and> n < 0xE000 then replacement_bytes @ utf8_encode us
      else
        of_nat (0xE0 + n div 4096) # of_nat (0x80 + (n div 64) mod 64)
          # of_nat (0x80 + n mod 64) # utf8_encode us)"

text \<open>\<open>Buffer.byteLength(s)\<close>: the length of the UTF-8 form.\<close>

fun byteLength :: "jsstring \<Rightarrow> nat" where
  "byteLength [] = 0"
| "byteLength (u # us) =
     (let n = unat u in
      if n < 0x80 then 1 + byteLength us
      else if n < 0x800 then 2 + byteLength us
      else if 0xD800 \<le> n \<and> n < 0xDC00 then
        (case us of
           [] \<Rightarrow> 3
         | l # rest \<Rightarrow>
             if 0xDC00 \<le> unat l \<and> unat l < 0xE000 then 4 + byteLength rest
             else 3 + byteLength us)
      else 3 + byteLength us)"

section \<open>Errors, sinks and command records\<close>

datatype err_kind = AbortError | AggregateError | ReplyError | ParserError | PlainError

datatype js_error =
  JsError (err_kind: err_kind) (err_message: string) (err_code: "string option")
    (err_command: "string option") (err_args: "arg list option")
    (err_origin: "js_error option") (err_errors: "js_error list")

datatype reply_mode = ON | OFF | SKIP | SKIP_ONE_MORE

text \<open>
  The closures the client stores as a command's \<open>callback\<close>, one constructor for
  each place that builds one:
  \<^item> \<open>User n\<close>: the sink the caller passed, named by \<open>n\<close>;
  \<^item> \<open>Deferred\<close>: the resolver of \<open>out_deferred\<close>, installed by
    \<open>internal_send_command\<close> when the command has no callback;
  \<^item> \<open>QuitCb cb\<close>: \<open>quit_callback(self, cb)\<close>;
  \<^item> \<open>InOrder fn cb err res\<close>: the wrapper \<open>reply_in_order\<close> puts on a queued
    command that has the callback \<open>fn\<close>;
  \<^item> \<open>InOrderNoFn cb err res\<close>: the wrapper it puts on one that has none.
\<close>

datatype callback =
    User nat
  | Deferred
  | QuitCb "callback option"
  | InOrder callback "callback option" "js_error option" jsval
  | InOrderNoFn "callback option" "js_error option" jsval

text \<open>The \<open>call_on_write\<close> closures of \<open>lib/individualCommands.js\<close>.\<close>

datatype hook =
    SetMonitoring
  | SetClosing
  | SetReply reply_mode
  | EnterPubSub

text \<open>
  Modelled from the spec: the command record of \<open>lib/command.js\<close>, which is not
  among the sources: command name, ordered argument list, completion sink,
  optional pre-write hook \<open>call_on_write\<close>, and the \<open>buffer_args\<close> flag set during
  serialization. The origin captured for error stacks is left out, with the stacks.
\<close>

record command_obj =
  command :: string
  args :: "arg list"
  buffer_args :: bool
  callback :: "callback option"
  call_on_write :: "hook option"

definition Command :: "string \<Rightarrow> arg list \<Rightarrow> callback option \<Rightarrow> hook option \<Rightarrow> command_obj" where
  "Command name as cb h =
     \<lparr>command = name, args = as, buffer_args = False, callback = cb, call_on_write = h\<rparr>"

definition SUBSCRIBE_COMMANDS :: "string \<Rightarrow> bool" where
  "SUBSCRIBE_COMMANDS name =
     (name = ''subscribe'' \<or> name = ''unsubscribe'' \<or> name = ''psubscribe'' \<or> name = ''punsubscribe'')"

section \<open>The client\<close>

record retry_params =
  rp_attempt :: int
  rp_error :: "js_error option"
  rp_total_retry_time :: int
  rp_times_connected :: int

text \<open>What a \<open>retry_strategy\<close> returns: a number, an Error, or anything else.\<close>

datatype strategy_result = Delay int | ErrorValue js_error | OtherValue

datatype event =
    EvEnd
  | EvDrain
  | EvError js_error
  | EvReconnecting int retry_params
  | EvMonitor string
  | EvMessage jsval jsval
  | EvMessageBuffer string jsval jsval
  | EvPMessage jsval jsval jsval
  | EvPMessageBuffer string jsval jsval jsval
  | EvPubSub string jsval jsnum

text \<open>The deprecation warnings of \<open>internal_send_command\<close>, with the command name.\<close>

datatype warning = NullArgument string | UndefinedArgument string | ObjectArgument string

text \<open>
  Everything the client does that an observer sees, in the order it happens: an
  event emitted, a user sink called, the promise of a command without callback
  settled, a warning issued, the stream destroyed, a new stream opened.
\<close>

datatype effect =
    Emit event
  | Call nat "js_error option" jsval
  | Resolve jsval
  | Reject js_error
  | Warn warning
  | StreamDestroy
  | CreateStream

datatype fragment = FStr jsstring | FBuf bytes

datatype queue_name = CommandQueue | OfflineQueue

record options =
  retry_strategy :: "(retry_params \<Rightarrow> strategy_result) option"
  retry_unfulfilled_commands :: bool
  prefix :: "jsstring option"
  rename_commands :: "string \<Rightarrow> string option"
  return_buffers :: bool
  detect_buffers :: bool

text \<open>
  The fields of \<open>RedisClient\<close> the functions below read or write, then what stands
  for the world around it:
  \<^item> \<open>debug_mode\<close> is \<open>exports.debug_mode\<close>, \<open>detect_buffers_reply\<close> says that
    \<open>RedisClient.handle_reply\<close> has been replaced by \<open>handle_detect_buffers_reply\<close>;
  \<^item> \<open>writable\<close> is \<open>stream.writable\<close>, \<open>wire\<close> the data passed to
    \<open>stream.write\<close> so far and \<open>write_returns k\<close> what the call number \<open>k\<close> returns;
  \<^item> \<open>key_indexes\<close> is \<open>commands.getKeyIndexes\<close> of the redis-commands package,
    \<open>buffer_to_string\<close> is \<open>Buffer.prototype.toString\<close>, \<open>monitor_regex_test\<close> and
    \<open>err_code_match\<close> are the matches of \<open>utils.monitor_regex\<close> and
    \<open>utils.err_code\<close> (the latter giving the first group);
  \<^item> \<open>next_tick\<close> holds the sink calls handed to \<open>process.nextTick\<close>, \<open>trace\<close> the
    effects so far.
  \<open>pub_sub_mode\<close> is a natural number: it is only ever assigned 0, a queue length
  plus one or a queue index, and is decremented only when it is above 1.
\<close>

record client =
  options :: options
  debug_mode :: bool
  detect_buffers_reply :: bool
  connected :: bool
  ready :: bool
  closing :: bool
  emitted_end :: bool
  writable :: bool
  should_buffer :: bool
  enable_offline_queue :: bool
  max_attempts :: int
  connect_timeout :: int
  retry_max_delay :: "int option"
  retry_timer :: "(int \<times> js_error option) option"
  retry_totaltime :: int
  retry_delay :: int
  attempts :: int
  times_connected :: int
  command_queue :: "command_obj list"
  offline_queue :: "command_obj list"
  pipeline_queue :: "fragment list"
  pipeline :: bool
  fire_strings :: bool
  cork_installed :: bool
  pub_sub_mode :: nat
  subscription_set :: "(string \<times> jsval) list"
  sub_commands_left :: jsnum
  monitoring :: bool
  message_buffers :: bool
  reply :: reply_mode
  wire :: "fragment list"
  write_returns :: "nat \<Rightarrow> bool"
  key_indexes :: "string \<Rightarrow> wire_arg list \<Rightarrow> nat list"
  buffer_to_string :: "bytes \<Rightarrow> jsstring"
  monitor_regex_test :: "string \<Rightarrow> bool"
  err_code_match :: "string \<Rightarrow> string option"
  next_tick :: "(callback option \<times> js_error option \<times> jsval) list"
  trace :: "effect list"

definition emit :: "event \<Rightarrow> client \<Rightarrow> client" where
  "emit ev c = c\<lparr>trace := trace c @ [Emit ev]\<rparr>"

definition perform :: "effect \<Rightarrow> client \<Rightarrow> client" where
  "perform eff c = c\<lparr>trace := trace c @ [eff]\<rparr>"

text \<open>
  \<open>warn\<close> defers the warning to the next tick; it changes nothing else, so it is
  recorded where it is issued.
\<close>

definition warn :: "warning \<Rightarrow> client \<Rightarrow> client" where
  "warn msg c = perform (Warn msg) c"

fun get_queue :: "queue_name \<Rightarrow> client \<Rightarrow> command_obj list" where
  "get_queue CommandQueue c = command_queue c"
| "get_queue OfflineQueue c = offline_queue c"

fun set_queue :: "queue_name \<Rightarrow> command_obj list \<Rightarrow> client \<Rightarrow> client" where
  "set_queue CommandQueue q c = c\<lparr>command_queue := q\<rparr>"
| "set_queue OfflineQueue q c = c\<lparr>offline_queue := q\<rparr>"


section \<open>The helpers of \<open>lib/utils.js\<close>\<close>

text \<open>
  \<open>reply[i].toString('binary')\<close>, the property name \<open>reply_to_object\<close> uses: a
  TypeError on \<open>null\<close> and \<open>undefined\<close>, a RangeError on a number (whose
  \<open>toString\<close> takes the argument as a radix), the text itself for a string, one
  character for each byte of a Buffer.
\<close>

fun key_text :: "jsval \<Rightarrow> exn + string" where
  "key_text Undefined = Inl TypeError"
| "key_text Null = Inl TypeError"
| "key_text (Integer n) = Inl RangeError"
| "key_text v = Inr (template_text v)"

text \<open>
  The loop of \<open>reply_to_object\<close>, two elements at a time. An array of odd length
  gives its last key the value \<open>undefined\<close>.
\<close>

fun fill_object :: "jsval list \<Rightarrow> (string \<times> jsval) list \<Rightarrow> exn + jsval" where
  "fill_object [] obj = Inr (Obj obj)"
| "fill_object [k] obj =
     (case key_text k of Inl e \<Rightarrow> Inl e | Inr s \<Rightarrow> Inr (Obj (AList.update s Undefined obj)))"
| "fill_object (k # v # rest) obj =
     (case key_text k of Inl e \<Rightarrow> Inl e | Inr s \<Rightarrow> fill_object rest (AList.update s v obj))"

text \<open>
  \<open>reply.length === 0 || !(reply instanceof Array)\<close> reads a property of the
  reply first, which throws on \<open>null\<close> and \<open>undefined\<close>.
\<close>

fun has_length_zero :: "jsval \<Rightarrow> bool" where
  "has_length_zero (Str s) = (s = [])"
| "has_length_zero (Buf s) = (s = [])"
| "has_length_zero (Arr xs) = (xs = [])"
| "has_length_zero v = False"

definition reply_to_object :: "jsval \<Rightarrow> exn + jsval" where
  "reply_to_object data =
     (if data = Null \<or> data = Undefined then Inl TypeError
      else if has_length_zero data \<or> \<not> is_array data then Inr Null
      else (case data of Arr xs \<Rightarrow> fill_object xs [] | _ \<Rightarrow> Inr Null))"

fun reply_to_strings :: "jsval \<Rightarrow> jsval" where
  "reply_to_strings (Buf s) = Str s"
| "reply_to_strings (Arr xs) = Arr (map reply_to_strings xs)"
| "reply_to_strings v = v"

definition stream_destroy :: "client \<Rightarrow> client" where
  "stream_destroy c = perform StreamDestroy (c\<lparr>writable := False\<rparr>)"

text \<open>
  Calling a stored callback with \<open>(err, res)\<close>. A user sink is an observer: the call
  is recorded, and what the user does next is a later step of the client.
  \<open>emit_if_err\<close> is the second branch of \<open>callback_or_emit\<close>.
\<close>

definition emit_if_err :: "js_error option \<Rightarrow> client \<Rightarrow> client" where
  "emit_if_err err c = (case err of Some e \<Rightarrow> emit (EvError e) c | None \<Rightarrow> c)"

definition is_closed :: "js_error option \<Rightarrow> bool" where
  "is_closed err = (case err of Some e \<Rightarrow> err_code e = Some ''NR_CLOSED'' | None \<Rightarrow> False)"

fun invoke :: "callback \<Rightarrow> js_error option \<Rightarrow> jsval \<Rightarrow> client \<Rightarrow> client" where
  "invoke (User n) err res c = perform (Call n err res) c"
| "invoke Deferred err res c =
     (case err of Some e \<Rightarrow> perform (Reject e) c | None \<Rightarrow> perform (Resolve res) c)"
| "invoke (QuitCb None) err res c =
     (let err' = (if is_closed err then None else err);
          c1 = emit_if_err err' c
      in if writable c1 then stream_destroy c1 else c1)"
| "invoke (QuitCb (Some cb)) err res c =
     (let err' = (if is_closed err then None else err);
          res' = (if is_closed err then Str ''OK'' else res);
          c1 = invoke cb err' res' c
      in if writable c1 then stream_destroy c1 else c1)"
| "invoke (InOrder fn None err0 res0) err res c = emit_if_err err0 (invoke fn err res c)"
| "invoke (InOrder fn (Some cb) err0 res0) err res c = invoke cb err0 res0 (invoke fn err res c)"
| "invoke (InOrderNoFn None err0 res0) err res c = emit_if_err err0 (emit_if_err err c)"
| "invoke (InOrderNoFn (Some cb) err0 res0) err res c = invoke cb err0 res0 (emit_if_err err c)"


text \<open>
  \<open>reply_in_order\<close>: the queue passed, else the offline queue if it has a last
  element, else the command queue. Without a last element the sink is called on
  the next tick; with one, that command's callback is wrapped.
\<close>

definition reply_in_order ::
  "callback option \<Rightarrow> js_error option \<Rightarrow> jsval \<Rightarrow> queue_name option \<Rightarrow> client \<Rightarrow> client" where
  "reply_in_order cb err res queue c =
     (let q = (case queue of
                 Some name \<Rightarrow> name
               | None \<Rightarrow> if offline_queue c \<noteq> [] then OfflineQueue else CommandQueue);
          xs = get_queue q c
      in if xs = [] then c\<lparr>next_tick := next_tick c @ [(cb, err, res)]\<rparr>
         else
           (let command_obj = last xs;
                wrapped = (case callback command_obj of
                             Some fn \<Rightarrow> InOrder fn cb err res
                           | None \<Rightarrow> InOrderNoFn cb err res)
            in set_queue q (butlast xs @ [command_obj\<lparr>callback := Some wrapped\<rparr>]) c))"




section \<open>Flushing the queues\<close>

text \<open>\<open>s.replace(pat, rep)\<close> with a string pattern: the first occurrence only.\<close>

fun replace_first :: "string \<Rightarrow> string \<Rightarrow> string \<Rightarrow> string" where
  "replace_first pat rep [] = (if pat = [] then rep else [])"
| "replace_first pat rep (x # xs) =
     (if take (length pat) (x # xs) = pat then rep @ drop (length pat) (x # xs)
      else x # replace_first pat rep xs)"

definition to_lower_char :: "char \<Rightarrow> char" where
  "to_lower_char ch =
     (if 65 \<le> (of_char ch :: nat) \<and> (of_char ch :: nat) \<le> 90
      then char_of ((of_char ch :: nat) + 32) else ch)"

text \<open>\<open>s.replace(/command/i, '$&s')\<close>: an \<open>s\<close> after the first match.\<close>

fun pluralize_command :: "string \<Rightarrow> string" where
  "pluralize_command [] = []"
| "pluralize_command (x # xs) =
     (if map to_lower_char (take 7 (x # xs)) = ''command''
      then take 7 (x # xs) @ ''s'' @ drop 7 (x # xs)
      else x # pluralize_command xs)"

definition processed_suffix :: string where
  "processed_suffix = '' It might have been processed.''"

text \<open>
  The inner loop of \<open>flush_and_error\<close> on one queue: shift a command, build its
  AbortError, call its callback or collect the error. The commands are those in
  the queue when the loop starts; callbacks do not touch the queues.
\<close>

fun flush_queue ::
  "queue_name \<Rightarrow> string \<Rightarrow> string \<Rightarrow> js_error option \<Rightarrow> command_obj list \<Rightarrow> js_error list
     \<Rightarrow> client \<Rightarrow> js_error list \<times> client" where
  "flush_queue q msg code_name origin [] aggregated c = (aggregated, c)"
| "flush_queue q msg code_name origin (command_obj # rest) aggregated c =
     (let c1 = set_queue q rest c;
          err = JsError AbortError msg (Some code_name) (Some (to_upper (command command_obj)))
                  (if args command_obj = [] then None else Some (args command_obj)) origin []
      in case callback command_obj of
           Some cb \<Rightarrow> flush_queue q msg code_name origin rest aggregated (invoke cb (Some err) Undefined c1)
         | None \<Rightarrow> flush_queue q msg code_name origin rest (aggregated @ [err]) c1)"

text \<open>The outer loop: the message gains or loses its suffix before each queue.\<close>

fun flush_queues ::
  "queue_name list \<Rightarrow> string \<Rightarrow> string \<Rightarrow> js_error option \<Rightarrow> js_error list \<Rightarrow> client
     \<Rightarrow> string \<times> js_error list \<times> client" where
  "flush_queues [] msg code_name origin aggregated c = (msg, aggregated, c)"
| "flush_queues (q # qs) msg code_name origin aggregated c =
     (let msg' = (if q = CommandQueue then msg @ processed_suffix
                  else replace_first processed_suffix [] msg);
          (aggregated', c') = flush_queue q msg' code_name origin (get_queue q c) aggregated c
      in flush_queues qs msg' code_name origin aggregated' c')"

definition flush_and_error ::
  "string \<Rightarrow> string \<Rightarrow> js_error option \<Rightarrow> queue_name list option \<Rightarrow> client \<Rightarrow> client" where
  "flush_and_error msg code_name origin queues c =
     (let queue_names = (case queues of Some qs \<Rightarrow> qs | None \<Rightarrow> [CommandQueue, OfflineQueue]);
          (msg', aggregated, c1) = flush_queues queue_names msg code_name origin [] c
      in if debug_mode c1 \<and> aggregated \<noteq> [] then
           (if length aggregated = 1 then emit (EvError (hd aggregated)) c1
            else emit (EvError (JsError AggregateError
                        (pluralize_command (replace_first ''It'' ''They'' msg'))
                        (Some code_name) None None None aggregated)) c1)
         else c1)"

section \<open>The connection controller\<close>

text \<open>
  Modelled from the spec: \<open>end(flush)\<close> of \<open>lib/extendedApi.js\<close>, which is not
  among the sources: set \<open>closing\<close>, flush both queues with \<open>NR_CLOSED\<close> when a flush
  is asked for, destroy the transport. The spec gives no message for the flush.
\<close>

definition end_client :: "bool \<Rightarrow> client \<Rightarrow> client" where
  "end_client flush c =
     (let c1 = c\<lparr>closing := True\<rparr>;
          c2 = (if flush then flush_and_error [] ''NR_CLOSED'' None None c1 else c1)
      in stream_destroy c2)"

text \<open>
  Modelled from the spec: \<open>unshift\<close> of the queue package, which is not among the
  sources: all in-flight commands go back onto the head of the offline queue,
  their order preserved.
\<close>

definition unshift_all :: "command_obj list \<Rightarrow> command_obj list \<Rightarrow> command_obj list" where
  "unshift_all items queue = items @ queue"

definition initialize_retry_vars :: "client \<Rightarrow> client" where
  "initialize_retry_vars c =
     c\<lparr>retry_timer := None, retry_totaltime := 0, retry_delay := 200, attempts := 1\<rparr>"

text \<open>
  The second half of \<open>connection_gone\<close>, from the budget check on: give up with
  \<open>CONNECTION_BROKEN\<close>, or put back or abort the in-flight commands, cap the
  delay and set the timer.
\<close>

definition schedule_retry :: "js_error option \<Rightarrow> client \<Rightarrow> client" where
  "schedule_retry error c =
     (if max_attempts c \<noteq> 0 \<and> attempts c \<ge> max_attempts c \<or> retry_totaltime c \<ge> connect_timeout c
      then
        (let msg = ''Redis connection in broken state: '' @
                     (if retry_totaltime c \<ge> connect_timeout c then ''connection timeout exceeded.''
                      else ''maximum connection attempts exceeded.'');
             c1 = flush_and_error msg ''CONNECTION_BROKEN'' error None c;
             err = JsError PlainError msg (Some ''CONNECTION_BROKEN'') None None error []
         in end_client False (emit (EvError err) c1))
      else
        (let c1 = (if retry_unfulfilled_commands (options c) then
                     c\<lparr>offline_queue := unshift_all (command_queue c) (offline_queue c),
                       command_queue := []\<rparr>
                   else if length (command_queue c) \<noteq> 0 then
                     flush_and_error ''Redis connection lost and command aborted.''
                       ''UNCERTAIN_STATE'' error (Some [CommandQueue]) c
                   else c);
             c2 = (if retry_max_delay c1 \<noteq> None \<and> retry_delay c1 > the (retry_max_delay c1) then
                     c1\<lparr>retry_delay := the (retry_max_delay c1)\<rparr>
                   else if retry_totaltime c1 + retry_delay c1 > connect_timeout c1 then
                     c1\<lparr>retry_delay := connect_timeout c1 - retry_totaltime c1\<rparr>
                   else c1)
         in c2\<lparr>retry_timer := Some (retry_delay c2, error)\<rparr>))"

text \<open>
  \<open>connection_gone(why, error)\<close>. A \<open>retry_strategy\<close> that returns no number
  leaves \<open>retry_delay\<close> without a numeric value; the client ends there and the
  field is not read again.
\<close>

definition connection_gone :: "string \<Rightarrow> js_error option \<Rightarrow> client \<Rightarrow> client" where
  "connection_gone why error c =
     (if retry_timer c \<noteq> None then c
      else
        (let c1 = c\<lparr>connected := False, ready := False, cork_installed := False,
                    pipeline := False, pub_sub_mode := 0\<rparr>;
             c2 = (if \<not> emitted_end c1 then (emit EvEnd c1)\<lparr>emitted_end := True\<rparr> else c1)
         in if closing c2 then
              flush_and_error ''Stream connection ended and command aborted.'' ''NR_CLOSED'' error None c2
            else
              (case retry_strategy (options c2) of
                 None \<Rightarrow> schedule_retry error c2
               | Some strategy \<Rightarrow>
                   (case strategy \<lparr>rp_attempt = attempts c2, rp_error = error,
                                   rp_total_retry_time = retry_totaltime c2,
                                   rp_times_connected = times_connected c2\<rparr> of
                      Delay d \<Rightarrow> schedule_retry error (c2\<lparr>retry_delay := d\<rparr>)
                    | ErrorValue e \<Rightarrow>
                        end_client False
                          (flush_and_error ''Stream connection ended and command aborted.''
                             ''NR_CLOSED'' (Some e) None c2)
                    | OtherValue \<Rightarrow>
                        end_client False
                          (flush_and_error ''Stream connection ended and command aborted.''
                             ''NR_CLOSED'' error None c2)))))"

text \<open>
  \<open>create_stream\<close> as far as the client state goes: a new parser and a new
  stream, which is writable. No password is configured.
\<close>

definition create_stream :: "client \<Rightarrow> client" where
  "create_stream c = perform CreateStream (c\<lparr>writable := True\<rparr>)"

text \<open>
  \<open>retry_connection\<close>, run by the timer. \<open>retry_backoff\<close> is 1.7; the product is
  taken exactly and rounded half up, as \<open>Math.round\<close> does.
\<close>

definition retry_backoff :: rat where
  "retry_backoff = 17 / 10"

definition math_round :: "rat \<Rightarrow> int" where
  "math_round x = \<lfloor>x + 1 / 2\<rfloor>"

definition retry_connection :: "js_error option \<Rightarrow> client \<Rightarrow> client" where
  "retry_connection error c =
     (let c1 = emit (EvReconnecting (retry_delay c)
                 \<lparr>rp_attempt = attempts c, rp_error = error,
                  rp_total_retry_time = retry_totaltime c,
                  rp_times_connected = times_connected c\<rparr>) c;
          c2 = c1\<lparr>retry_totaltime := retry_totaltime c1 + retry_delay c1,
                  attempts := attempts c1 + 1,
                  retry_delay := math_round (of_int (retry_delay c1) * retry_backoff)\<rparr>
      in (create_stream c2)\<lparr>retry_timer := None\<rparr>)"

text \<open>The timer fires: \<open>retry_connection\<close> runs with the error it was set with.\<close>

definition timer_fires :: "client \<Rightarrow> client" where
  "timer_fires c = (case retry_timer c of None \<Rightarrow> c | Some (delay, error) \<Rightarrow> retry_connection error c)"


section \<open>Reply dispatch\<close>

text \<open>
  \<open>RedisClient.handle_reply\<close>: the static method, or
  \<open>handle_detect_buffers_reply\<close> once it has been put in its place. The latter is
  called on the class, which has no \<open>message_buffers\<close> property, so its test is
  \<open>buffer_args === false\<close> alone.
\<close>

definition handle_reply :: "client \<Rightarrow> jsval \<Rightarrow> string \<Rightarrow> bool \<Rightarrow> exn + jsval" where
  "handle_reply c data name buf_args =
     (let data1 = (if detect_buffers_reply c \<and> buf_args = False then reply_to_strings data else data)
      in if name = ''hgetall'' then reply_to_object data1 else Inr data1)"

text \<open>\<open>normal_reply\<close>: on an empty queue \<open>shift()\<close> gives \<open>undefined\<close> and the next line throws.\<close>

definition normal_reply :: "client \<Rightarrow> jsval \<Rightarrow> exn + client" where
  "normal_reply c data =
     (case command_queue c of
        [] \<Rightarrow> Inl TypeError
      | command_obj # rest \<Rightarrow>
          (let c1 = c\<lparr>command_queue := rest\<rparr>
           in case callback command_obj of
                None \<Rightarrow> Inr c1
              | Some cb \<Rightarrow>
                  if command command_obj \<noteq> ''exec'' then
                    (case handle_reply c1 data (command command_obj) (buffer_args command_obj) of
                       Inl e \<Rightarrow> Inl e
                     | Inr v \<Rightarrow> Inr (invoke cb None v c1))
                  else Inr (invoke cb None data c1)))"

text \<open>
  The \<open>while\<close> loop of \<open>subscribe_unsubscribe\<close>: the index of the first
  subscribe-family command from position \<open>i\<close> on, or 0.
\<close>

fun find_subscribe :: "command_obj list \<Rightarrow> nat \<Rightarrow> nat" where
  "find_subscribe [] i = 0"
| "find_subscribe (running_command # rest) i =
     (if SUBSCRIBE_COMMANDS (command running_command) then i else find_subscribe rest (Suc i))"

fun decrement :: "jsnum \<Rightarrow> jsnum" where
  "decrement (Num n) = Num (n - 1)"
| "decrement NaN = NaN"

text \<open>
  \<open>subscribe_unsubscribe\<close>, in three parts. First the channel: the element as
  it is when Buffers are returned or it is \<open>null\<close>, else its text.
\<close>

definition ack_channel :: "client \<Rightarrow> command_obj \<Rightarrow> jsval \<Rightarrow> jsval" where
  "ack_channel c command_obj data =
     (let buffer = (return_buffers (options c) \<or> detect_buffers (options c) \<and> buffer_args command_obj)
      in if buffer \<or> elem data 1 = Null then elem data 1 else Str (template_text (elem data 1)))"

text \<open>Then the event and the subscription set, unless the channel is \<open>null\<close>.\<close>

definition ack_emit :: "client \<Rightarrow> string \<Rightarrow> jsval \<Rightarrow> jsnum \<Rightarrow> client" where
  "ack_emit c type channel count =
     (if channel \<noteq> Null then
        (let c' = emit (EvPubSub type channel count) c
         in if type = ''subscribe'' \<or> type = ''psubscribe'' then
              c'\<lparr>subscription_set :=
                   AList.update (type @ ''_'' @ template_text channel) channel (subscription_set c')\<rparr>
            else
              c'\<lparr>subscription_set :=
                   AList.delete
                     ((if type = ''unsubscribe'' then ''subscribe'' else ''psubscribe'')
                        @ ''_'' @ template_text channel)
                     (subscription_set c')\<rparr>)
      else c)"

text \<open>
  Last the command: completed, or left at the head with \<open>sub_commands_left\<close>
  counted. With an empty command queue \<open>command_queue.get(0)\<close> is \<open>undefined\<close>
  and reading a property of it throws; so does \<open>reply[1].toString()\<close> on a
  missing element.
\<close>

definition subscribe_unsubscribe :: "client \<Rightarrow> jsval \<Rightarrow> string \<Rightarrow> exn + client" where
  "subscribe_unsubscribe c data type =
     (case command_queue c of
        [] \<Rightarrow> Inl TypeError
      | command_obj # rest \<Rightarrow>
          if \<not> (return_buffers (options c) \<or> detect_buffers (options c) \<and> buffer_args command_obj)
             \<and> elem data 1 = Undefined
          then Inl TypeError
          else
            (let channel = ack_channel c command_obj data;
                 count = to_number (elem data 2);
                 c1 = ack_emit c type channel count
             in if length (args command_obj) = 1 \<or> sub_commands_left c1 = Num 1
                   \<or> length (args command_obj) = 0 \<and> (count = Num 0 \<or> channel = Null)
                then
                  (let c2 = (if count = Num 0 then
                               c1\<lparr>pub_sub_mode := find_subscribe (drop 1 (command_queue c1)) 1\<rparr>
                             else c1);
                       c3 = c2\<lparr>command_queue := drop 1 (command_queue c2)\<rparr>;
                       c4 = (case callback command_obj of
                               Some cb \<Rightarrow> invoke cb None channel c3
                             | None \<Rightarrow> c3)
                   in Inr (c4\<lparr>sub_commands_left := Num 0\<rparr>))
                else if sub_commands_left c1 \<noteq> Num 0 then
                  Inr (c1\<lparr>sub_commands_left := decrement (sub_commands_left c1)\<rparr>)
                else
                  Inr (c1\<lparr>sub_commands_left :=
                           (if length (args command_obj) \<noteq> 0
                            then Num (int (length (args command_obj)) - 1) else count)\<rparr>)))"

text \<open>
  \<open>return_pub_sub\<close>. The arguments of an \<open>emit\<close> are computed before anything is
  emitted, so a \<open>toString()\<close> on a missing element throws with nothing done.
\<close>

definition return_pub_sub :: "client \<Rightarrow> jsval \<Rightarrow> exn + client" where
  "return_pub_sub c data =
     (case to_string (elem data 0) of
        Inl e \<Rightarrow> Inl e
      | Inr type \<Rightarrow>
          if type = ''message'' then
            (if \<not> return_buffers (options c) \<or> message_buffers c then
               (case (to_string (elem data 1), to_string (elem data 2)) of
                  (Inr a, Inr b) \<Rightarrow>
                    Inr (emit (EvMessageBuffer ''messageBuffer'' (elem data 1) (elem data 2))
                          (emit (EvMessageBuffer ''message_buffer'' (elem data 1) (elem data 2))
                            (emit (EvMessage (Str a) (Str b)) c)))
                | _ \<Rightarrow> Inl TypeError)
             else Inr (emit (EvMessage (elem data 1) (elem data 2)) c))
          else if type = ''pmessage'' then
            (if \<not> return_buffers (options c) \<or> message_buffers c then
               (case (to_string (elem data 1), to_string (elem data 2), to_string (elem data 3)) of
                  (Inr a, Inr b, Inr d) \<Rightarrow>
                    Inr (emit (EvPMessageBuffer ''pmessageBuffer'' (elem data 1) (elem data 2) (elem data 3))
                          (emit (EvPMessageBuffer ''pmessage_buffer'' (elem data 1) (elem data 2) (elem data 3))
                            (emit (EvPMessage (Str a) (Str b) (Str d)) c)))
                | _ \<Rightarrow> Inl TypeError)
             else Inr (emit (EvPMessage (elem data 1) (elem data 2) (elem data 3)) c))
          else subscribe_unsubscribe c data type)"

text \<open>
  The monitor test of \<open>return_reply\<close>: the reply as a string (a Buffer is
  converted when the client returns buffers), matched against the monitor regex.
\<close>

definition monitor_line :: "client \<Rightarrow> jsval \<Rightarrow> string option" where
  "monitor_line c data =
     (case data of
        Str s \<Rightarrow> if monitor_regex_test c s then Some s else None
      | Buf s \<Rightarrow>
          if (return_buffers (options c) \<or> detect_buffers (options c)) \<and> monitor_regex_test c s
          then Some s else None
      | _ \<Rightarrow> None)"

fun array_length :: "jsval \<Rightarrow> nat" where
  "array_length (Arr xs) = length xs"
| "array_length v = 0"

definition return_reply :: "client \<Rightarrow> jsval \<Rightarrow> exn + client" where
  "return_reply c data =
     (if monitoring c \<and> monitor_line c data \<noteq> None then
        Inr (emit (EvMonitor (the (monitor_line c data))) c)
      else if pub_sub_mode c = 0 then normal_reply c data
      else if pub_sub_mode c \<noteq> 1 then normal_reply (c\<lparr>pub_sub_mode := pub_sub_mode c - 1\<rparr>) data
      else if \<not> is_array data \<or> array_length data \<le> 2 then normal_reply c data
      else return_pub_sub c data)"




section \<open>Sending a command\<close>

text \<open>\<open>write(data)\<close>: to the stream, or onto the pipeline queue while corked.\<close>

definition write_data :: "fragment \<Rightarrow> client \<Rightarrow> client" where
  "write_data data c =
     (if pipeline c = False then
        c\<lparr>should_buffer := \<not> write_returns c (length (wire c)), wire := wire c @ [data]\<rparr>
      else c\<lparr>pipeline_queue := pipeline_queue c @ [data]\<rparr>)"

definition handle_offline_command :: "client \<Rightarrow> command_obj \<Rightarrow> client" where
  "handle_offline_command c command_obj =
     (if closing c \<or> \<not> enable_offline_queue c then
        (let name = to_upper (command command_obj);
             msg = (if \<not> closing c then
                      (if writable c then
                         ''The connection is not yet established and the offline queue is deactivated.''
                       else ''Stream not writeable.'')
                    else ''The connection is already closed.'');
             err = JsError AbortError (name @ '' can't be processed. '' @ msg) (Some ''NR_CLOSED'')
                     (Some name) (if args command_obj = [] then None else Some (args command_obj))
                     None []
         in reply_in_order (callback command_obj) (Some err) Undefined None c)
      else c\<lparr>offline_queue := offline_queue c @ [command_obj], should_buffer := True\<rparr>)"

text \<open>
  The first loop of \<open>internal_send_command\<close>, one argument at a time:
  \<open>args_copy\<close>, \<open>big_data\<close>, the command's \<open>buffer_args\<close> and the client (for the
  warnings) are threaded through.
\<close>

fun normalize_args ::
  "string \<Rightarrow> arg list \<Rightarrow> wire_arg list \<Rightarrow> bool \<Rightarrow> bool \<Rightarrow> client
     \<Rightarrow> wire_arg list \<times> bool \<times> bool \<times> client" where
  "normalize_args name [] args_copy big_data buf_args c = (args_copy, big_data, buf_args, c)"
| "normalize_args name (Text s # rest) args_copy big_data buf_args c =
     (if length s > 30000 then
        normalize_args name rest (args_copy @ [WBuf (utf8_encode s)]) True buf_args c
      else normalize_args name rest (args_copy @ [WText s]) big_data buf_args c)"
| "normalize_args name (DateArg t # rest) args_copy big_data buf_args c =
     normalize_args name rest (args_copy @ [WText t]) big_data buf_args c"
| "normalize_args name (NullArg # rest) args_copy big_data buf_args c =
     normalize_args name rest (args_copy @ [WText (str16 ''null'')]) big_data buf_args
       (warn (NullArgument (to_upper name)) c)"
| "normalize_args name (Binary b # rest) args_copy big_data buf_args c =
     normalize_args name rest (args_copy @ [WBuf b]) True True c"
| "normalize_args name (ObjectArg t # rest) args_copy big_data buf_args c =
     normalize_args name rest (args_copy @ [WText t]) big_data buf_args
       (warn (ObjectArgument (to_upper name)) c)"
| "normalize_args name (UndefinedArg # rest) args_copy big_data buf_args c =
     normalize_args name rest (args_copy @ [WText (str16 ''undefined'')]) big_data buf_args
       (warn (UndefinedArgument (to_upper name)) c)"
| "normalize_args name (OtherArg t # rest) args_copy big_data buf_args c =
     normalize_args name rest (args_copy @ [WText t]) big_data buf_args c"

text \<open>The text of an entry of \<open>args_copy\<close> in a concatenation or template literal.\<close>

definition wire_text :: "client \<Rightarrow> wire_arg \<Rightarrow> jsstring" where
  "wire_text c a = (case a of WText s \<Rightarrow> s | WBuf b \<Rightarrow> buffer_to_string c b)"

text \<open>
  The prefix loop: the key indexes are popped from the end. An index beyond the
  arguments writes an element the serialization never reads.
\<close>

fun prefix_keys_loop :: "client \<Rightarrow> jsstring \<Rightarrow> nat list \<Rightarrow> wire_arg list \<Rightarrow> wire_arg list" where
  "prefix_keys_loop c pre [] args_copy = args_copy"
| "prefix_keys_loop c pre (i # rest) args_copy =
     prefix_keys_loop c pre rest
       (if i < length args_copy then args_copy[i := WText (pre @ wire_text c (args_copy ! i))]
        else args_copy)"

definition crlf :: jsstring where
  "crlf = [13, 10]"

definition bulk_header :: "nat \<Rightarrow> jsstring" where
  "bulk_header n = str16 (''$'' @ show_nat n) @ crlf"

text \<open>The writes of a command with \<open>big_data\<close>, one argument after the other.\<close>

fun write_big_args :: "wire_arg list \<Rightarrow> client \<Rightarrow> client" where
  "write_big_args [] c = c"
| "write_big_args (WText s # rest) c =
     write_big_args rest (write_data (FStr (bulk_header (byteLength s) @ s @ crlf)) c)"
| "write_big_args (WBuf b # rest) c =
     write_big_args rest
       (write_data (FStr crlf) (write_data (FBuf b) (write_data (FStr (bulk_header (length b))) c)))"

text \<open>The string built for a command without \<open>big_data\<close>.\<close>

fun append_args :: "client \<Rightarrow> wire_arg list \<Rightarrow> jsstring \<Rightarrow> jsstring" where
  "append_args c [] command_str = command_str"
| "append_args c (a # rest) command_str =
     append_args c rest
       (command_str @
          bulk_header (case a of WText s \<Rightarrow> byteLength s | WBuf b \<Rightarrow> length b)
          @ wire_text c a @ crlf)"

fun run_hook :: "hook \<Rightarrow> client \<Rightarrow> client" where
  "run_hook SetMonitoring c = c\<lparr>monitoring := True\<rparr>"
| "run_hook SetClosing c = c\<lparr>closing := True, ready := False\<rparr>"
| "run_hook (SetReply m) c = c\<lparr>reply := m\<rparr>"
| "run_hook EnterPubSub c =
     c\<lparr>pub_sub_mode :=
         (if pub_sub_mode c \<noteq> 0 then pub_sub_mode c else length (command_queue c) + 1)\<rparr>"

text \<open>The wire token of a command: its entry in \<open>rename_commands\<close>, if any.\<close>

definition wire_command :: "client \<Rightarrow> string \<Rightarrow> string" where
  "wire_command c name =
     (case rename_commands (options c) name of
        Some renamed \<Rightarrow> if renamed \<noteq> [] then renamed else name
      | None \<Rightarrow> name)"

text \<open>The start of \<open>command_str\<close>: the argument count and the command token.\<close>

definition multi_bulk_header :: "nat \<Rightarrow> string \<Rightarrow> jsstring" where
  "multi_bulk_header len token =
     str16 (''*'' @ show_nat (len + 1)) @ crlf @ bulk_header (length token) @ str16 token @ crlf"

text \<open>What \<open>internal_send_command\<close> returns: the promise, or a boolean.\<close>

datatype send_result = Promise | Flag bool

text \<open>
  \<open>internal_send_command\<close>, in three parts. First the serialization, from the
  argument loop to the last write: it gives the command with its \<open>buffer_args\<close>
  and the client after the writes.
\<close>

definition write_command :: "client \<Rightarrow> command_obj \<Rightarrow> command_obj \<times> client" where
  "write_command c command_obj =
     (let name = command command_obj;
          len = length (args command_obj);
          (args_copy0, big_data, buf_args, c1) =
             normalize_args name (args command_obj) [] False (buffer_args command_obj) c;
          args_copy = (case prefix (options c1) of
                         Some pre \<Rightarrow>
                           if pre \<noteq> [] then
                             prefix_keys_loop c1 pre (rev (key_indexes c1 name args_copy0)) args_copy0
                           else args_copy0
                       | None \<Rightarrow> args_copy0);
          command_str = multi_bulk_header len (wire_command c1 name);
          c2 = (if big_data then
                  write_big_args args_copy (write_data (FStr command_str) (c1\<lparr>fire_strings := False\<rparr>))
                else write_data (FStr (append_args c1 args_copy command_str)) c1)
      in (command_obj\<lparr>buffer_args := buf_args\<rparr>, c2))"

text \<open>
  Then, after \<open>call_on_write\<close>, the handling of \<open>CLIENT REPLY\<close>: the command is
  pushed onto the command queue when replies are on; otherwise its callback is
  completed in order and a skip is counted down.
\<close>

definition expect_reply :: "client \<Rightarrow> command_obj \<Rightarrow> client" where
  "expect_reply c command_obj =
     (if reply c = ON then c\<lparr>command_queue := command_queue c @ [command_obj]\<rparr>
      else
        (let c' = (if callback command_obj \<noteq> None then
                     reply_in_order (callback command_obj) None Undefined (Some CommandQueue) c
                   else c)
         in if reply c' = SKIP then c'\<lparr>reply := SKIP_ONE_MORE\<rparr>
            else if reply c' = SKIP_ONE_MORE then c'\<lparr>reply := ON\<rparr>
            else c'))"

definition internal_send_command :: "client \<Rightarrow> command_obj \<Rightarrow> send_result \<times> client" where
  "internal_send_command c command_obj0 =
     (let out_deferred = (callback command_obj0 = None);
          command_obj = (if out_deferred then command_obj0\<lparr>callback := Some Deferred\<rparr>
                         else command_obj0)
      in if ready c = False \<or> writable c = False then
           (if out_deferred then Promise else Flag False, handle_offline_command c command_obj)
         else
           (let (command_obj1, c2) = write_command c command_obj;
                c3 = (case call_on_write command_obj1 of
                        Some h \<Rightarrow> run_hook h c2
                      | None \<Rightarrow> c2);
                c4 = expect_reply c3 command_obj1
            in (if out_deferred then Promise else Flag (\<not> should_buffer c4), c4)))"

section \<open>The commands of \<open>lib/individualCommands.js\<close>\<close>

text \<open>
  Each function takes the argument array and the callback that
  \<open>prepare_arguments_optional\<close> or \<open>prepare_arguments_variable_length\<close> has
  split the call into.
\<close>

definition quit :: "callback option \<Rightarrow> client \<Rightarrow> send_result \<times> client" where
  "quit cb c =
     (let (backpressure_indicator, c1) =
            internal_send_command c (Command ''quit'' [] (Some (QuitCb cb)) None)
      in (backpressure_indicator, c1\<lparr>closing := True, ready := False\<rparr>))"

definition monitor :: "callback option \<Rightarrow> client \<Rightarrow> send_result \<times> client" where
  "monitor cb c = internal_send_command c (Command ''monitor'' [] cb (Some SetMonitoring))"

definition to_upper16 :: "jsstring \<Rightarrow> jsstring" where
  "to_upper16 s = map (\<lambda>u. if 97 \<le> unat u \<and> unat u \<le> 122 then u - 32 else u) s"

text \<open>
  \<open>arr[i].toString().toUpperCase()\<close> in \<open>client\<close>: a TypeError on \<open>null\<close> and
  \<open>undefined\<close>. Letters outside ASCII are left as they are.
\<close>

definition arg_upper :: "client \<Rightarrow> arg \<Rightarrow> exn + jsstring" where
  "arg_upper c a =
     (case a of
        Text s \<Rightarrow> Inr (to_upper16 s)
      | Binary b \<Rightarrow> Inr (to_upper16 (buffer_to_string c b))
      | DateArg t \<Rightarrow> Inr (to_upper16 t)
      | NullArg \<Rightarrow> Inl TypeError
      | UndefinedArg \<Rightarrow> Inl TypeError
      | ObjectArg t \<Rightarrow> Inr (to_upper16 t)
      | OtherArg t \<Rightarrow> Inr (to_upper16 t))"

definition client_hook :: "client \<Rightarrow> arg list \<Rightarrow> exn + hook option" where
  "client_hook c arr =
     (if length arr = 2 then
        (case arg_upper c (arr ! 0) of
           Inl e \<Rightarrow> Inl e
         | Inr first \<Rightarrow>
             if first = str16 ''REPLY'' then
               (case arg_upper c (arr ! 1) of
                  Inl e \<Rightarrow> Inl e
                | Inr reply_on_off \<Rightarrow>
                    if reply_on_off = str16 ''ON'' then Inr (Some (SetReply ON))
                    else if reply_on_off = str16 ''OFF'' then Inr (Some (SetReply OFF))
                    else if reply_on_off = str16 ''SKIP'' then Inr (Some (SetReply SKIP))
                    else Inr None)
             else Inr None)
      else Inr None)"


definition subscribe :: "arg list \<Rightarrow> callback option \<Rightarrow> client \<Rightarrow> send_result \<times> client" where
  "subscribe arr cb c = internal_send_command c (Command ''subscribe'' arr cb (Some EnterPubSub))"


definition psubscribe :: "arg list \<Rightarrow> callback option \<Rightarrow> client \<Rightarrow> send_result \<times> client" where
  "psubscribe arr cb c = internal_send_command c (Command ''psubscribe'' arr cb (Some EnterPubSub))"

definition punsubscribe :: "arg list \<Rightarrow> callback option \<Rightarrow> client \<Rightarrow> send_result \<times> client" where
  "punsubscribe arr cb c = internal_send_command c (Command ''punsubscribe'' arr cb (Some EnterPubSub))"

text \<open>
  The methods \<open>addCommand\<close> generates. It does not override an existing method, so
  a name that \<open>lib/individualCommands.js\<close> defines never reaches it; the other
  commands carry no hook.
\<close>

definition individual_commands :: "string list" where
  "individual_commands =
     [''multi'', ''batch'', ''select'', ''monitor'', ''quit'', ''info'', ''auth'', ''client'',
      ''hmset'', ''subscribe'', ''unsubscribe'', ''psubscribe'', ''punsubscribe'']"


section \<open>A client as the constructor leaves it\<close>

definition default_options :: options where
  "default_options =
     \<lparr>retry_strategy = None, retry_unfulfilled_commands = False, prefix = None,
      rename_commands = (\<lambda>name. None), return_buffers = False, detect_buffers = False\<rparr>"

text \<open>
  The client after \<open>new RedisClient({})\<close>: every option at its default, the stream
  created and writable. The reads of the world are fixed: every write is accepted,
  no argument is a key, a Buffer reads as one code unit for each byte, no line
  matches the monitor regex, no error message carries a code.
\<close>

definition new_client :: client where
  "new_client =
     \<lparr>options = default_options, debug_mode = False, detect_buffers_reply = False,
      connected = False, ready = False, closing = False, emitted_end = False,
      writable = True, should_buffer = False, enable_offline_queue = True,
      max_attempts = 0, connect_timeout = 3600000, retry_max_delay = None,
      retry_timer = None, retry_totaltime = 0, retry_delay = 200, attempts = 1,
      times_connected = 0, command_queue = [], offline_queue = [], pipeline_queue = [],
      pipeline = False, fire_strings = True, cork_installed = False, pub_sub_mode = 0,
      subscription_set = [], sub_commands_left = Num 0, monitoring = False,
      message_buffers = False, reply = ON, wire = [],
      write_returns = (\<lambda>k. True), key_indexes = (\<lambda>name as. []),
      buffer_to_string = map ucast, monitor_regex_test = (\<lambda>s. False),
      err_code_match = (\<lambda>s. None), next_tick = [], trace = []\<rparr>"

text \<open>The same client once the connection is established and found ready.\<close>

definition ready_client :: client where
  "ready_client = new_client\<lparr>connected := True, ready := True, times_connected := 1\<rparr>"


section \<open>Notions used in the statements and proofs\<close>

text \<open>
  \<open>io_only c c'\<close>: the step from \<open>c\<close> to \<open>c'\<close> touched only the stream's
  writability and the trace. \<open>queues_io_only\<close> allows the two queues as well.
\<close>

definition io_only :: "client \<Rightarrow> client \<Rightarrow> bool" where
  "io_only c c' = (\<exists>w t. c' = c\<lparr>writable := w, trace := t\<rparr>)"

definition queues_io_only :: "client \<Rightarrow> client \<Rightarrow> bool" where
  "queues_io_only c c' =
     (\<exists>w t cq oq. c' = c\<lparr>writable := w, command_queue := cq, offline_queue := oq, trace := t\<rparr>)"

text \<open>The client after the first lines of \<open>connection_gone\<close>, up to the \<open>end\<close> event.\<close>

definition gone_start :: "client \<Rightarrow> client" where
  "gone_start c =
     (let c1 = c\<lparr>connected := False, ready := False, cork_installed := False,
                 pipeline := False, pub_sub_mode := 0\<rparr>
      in if \<not> emitted_end c1 then (emit EvEnd c1)\<lparr>emitted_end := True\<rparr> else c1)"

subsection \<open>Runs of the client used as concrete inputs\<close>

text \<open>One failed attempt: the stream closes, the retry timer is set and fires.\<close>

definition outage :: "client \<Rightarrow> client" where
  "outage c = timer_fires (connection_gone ''close'' None c)"

definition get_foo :: command_obj where
  "get_foo = Command ''get'' [Text (str16 ''foo'')] (Some (User 1)) None"

text \<open>
  A client created with \<open>max_attempts: 3\<close> that never connected: two attempts
  have failed, and the user has sent a GET, which waits in the offline queue.
\<close>

definition exhausted_client :: client where
  "exhausted_client =
     snd (internal_send_command (outage (outage (new_client\<lparr>max_attempts := 3\<rparr>))) get_foo)"

text \<open>The same two failed attempts, after which the user has called \<open>quit\<close>.\<close>

definition quitting_client :: client where
  "quitting_client = snd (quit (Some (User 0)) (outage (outage (new_client\<lparr>max_attempts := 3\<rparr>))))"

text \<open>
  A client created with \<open>retry_max_delay: 1000\<close> and \<open>connect_timeout: 2500\<close>
  that never connected, after four failed attempts.
\<close>

definition capped_client :: client where
  "capped_client =
     outage (outage (outage (outage
       (new_client\<lparr>retry_max_delay := Some 1000, connect_timeout := 2500\<rparr>))))"

subsection \<open>The hash reply as the claim words it\<close>





subsection \<open>One argument of a command, as the claim words it\<close>

text \<open>The entry of \<open>args_copy\<close> for one argument, and whether it sets \<open>big_data\<close>.\<close>

fun args_copy_entry :: "arg \<Rightarrow> wire_arg" where
  "args_copy_entry (Text s) = (if length s > 30000 then WBuf (utf8_encode s) else WText s)"
| "args_copy_entry (Binary b) = WBuf b"
| "args_copy_entry (DateArg t) = WText t"
| "args_copy_entry NullArg = WText (str16 ''null'')"
| "args_copy_entry UndefinedArg = WText (str16 ''undefined'')"
| "args_copy_entry (ObjectArg t) = WText t"
| "args_copy_entry (OtherArg t) = WText t"

fun sets_big_data :: "arg \<Rightarrow> bool" where
  "sets_big_data (Text s) = (length s > 30000)"
| "sets_big_data (Binary b) = True"
| "sets_big_data a = False"

text \<open>
  Inputs: 10001 euro signs (three bytes each in UTF-8), and the letter \<open>a\<close> 30000
  and 30001 times.
\<close>

definition euro_text :: jsstring where
  "euro_text = replicate 10001 0x20AC"

definition text_30000 :: jsstring where
  "text_30000 = replicate 30000 97"

definition text_30001 :: jsstring where
  "text_30001 = replicate 30001 97"



subsection \<open>A command on the ready path, as the claims word it\<close>

text \<open>
  The reply mode that \<open>internal_send_command\<close> tests: the one the command's
  \<open>call_on_write\<close> hook has just set, if it sets one, else the client's.
\<close>

definition mode_after_hook :: "client \<Rightarrow> command_obj \<Rightarrow> reply_mode" where
  "mode_after_hook c command_obj =
     (case call_on_write command_obj of Some (SetReply m) \<Rightarrow> m | _ \<Rightarrow> reply c)"

text \<open>The callback the command is completed through: its own, or the promise's.\<close>

definition sink_of :: "command_obj \<Rightarrow> callback" where
  "sink_of command_obj = (case callback command_obj of None \<Rightarrow> Deferred | Some cb \<Rightarrow> cb)"

fun is_binary :: "arg \<Rightarrow> bool" where
  "is_binary (Binary b) = True"
| "is_binary a = False"

text \<open>The command as it is pushed onto the command queue.\<close>

definition queued_form :: "command_obj \<Rightarrow> command_obj" where
  "queued_form command_obj =
     command_obj\<lparr>callback := Some (sink_of command_obj),
                 buffer_args := (buffer_args command_obj \<or> (\<exists>a \<in> set (args command_obj). is_binary a))\<rparr>"

text \<open>The queue after \<open>reply_in_order\<close> has wrapped the callback of its last command.\<close>

definition wrap_last :: "callback \<Rightarrow> command_obj list \<Rightarrow> command_obj list" where
  "wrap_last cb xs =
     butlast xs @
       [(last xs)\<lparr>callback :=
           Some (case callback (last xs) of
                   Some fn \<Rightarrow> InOrder fn (Some cb) None Undefined
                 | None \<Rightarrow> InOrderNoFn (Some cb) None Undefined)\<rparr>]"

text \<open>Effects of the trace by kind: calls of user sinks, pub/sub acknowledgement events.\<close>

fun is_call :: "effect \<Rightarrow> bool" where
  "is_call (Call n err res) = True"
| "is_call eff = False"

fun is_pubsub_event :: "effect \<Rightarrow> bool" where
  "is_pubsub_event (Emit (EvPubSub type channel count)) = True"
| "is_pubsub_event eff = False"

subsection \<open>More concrete inputs\<close>

text \<open>\<open>CLIENT REPLY\<close> commands as \<open>client\<close> builds them, and the clients after them.\<close>

definition reply_off_args :: "arg list" where
  "reply_off_args = [Text (str16 ''REPLY''), Text (str16 ''OFF'')]"


definition reply_skip_args :: "arg list" where
  "reply_skip_args = [Text (str16 ''REPLY''), Text (str16 ''SKIP'')]"



definition reply_skip :: command_obj where
  "reply_skip = Command ''client'' reply_skip_args (Some (User 0)) (Some (SetReply SKIP))"


definition skip_client :: client where
  "skip_client = snd (internal_send_command ready_client reply_skip)"


definition sub_a :: command_obj where
  "sub_a = Command ''subscribe'' [Text (str16 ''a'')] (Some (User 0)) (Some EnterPubSub)"





definition get_client :: client where
  "get_client = snd (internal_send_command ready_client get_foo)"

definition get_then_sub :: client where
  "get_then_sub = snd (subscribe [Text (str16 ''a'')] (Some (User 0)) get_client)"



subsection \<open>The steps of the client and the pub/sub counter\<close>







section \<open>Frame lemmas\<close>

lemma io_only_refl: "io_only c c"
  unfolding io_only_def by (rule exI [of _ "writable c"], rule exI [of _ "trace c"]) simp

lemma io_only_trans: "io_only a b \<Longrightarrow> io_only b c \<Longrightarrow> io_only a c"
  unfolding io_only_def by (elim exE) (simp, blast)

lemma io_only_perform: "io_only c (perform eff c)"
  unfolding io_only_def perform_def by (rule exI [of _ "writable c"]) auto

lemma io_only_emit: "io_only c (emit ev c)"
  unfolding io_only_def emit_def by (rule exI [of _ "writable c"]) auto

lemma io_only_emit_if_err: "io_only c (emit_if_err err c)"
  by (simp add: emit_if_err_def io_only_emit io_only_refl split: option.splits)

lemma io_only_stream_destroy: "io_only c (stream_destroy c)"
  unfolding io_only_def stream_destroy_def perform_def by auto

lemma io_only_invoke: "io_only c (invoke cb err res c)"
proof (induction cb err res c rule: invoke.induct)
  case (1 n err res c)
  show ?case by (simp add: io_only_perform)
next
  case (2 err res c)
  show ?case by (simp add: io_only_perform split: option.splits)
next
  case (3 err res c)
  show ?case
    by (auto simp: Let_def intro: io_only_trans [OF io_only_emit_if_err io_only_stream_destroy] io_only_emit_if_err)
next
  case (4 cb err res c)
  then show ?case
    by (auto simp: Let_def intro: io_only_trans [OF _ io_only_stream_destroy])
next
  case (5 fn err0 res0 err res c)
  then show ?case by (auto intro: io_only_trans [OF _ io_only_emit_if_err])
next
  case (6 fn cb err0 res0 err res c)
  then show ?case by (auto intro: io_only_trans)
next
  case (7 err0 res0 err res c)
  show ?case by (auto intro: io_only_trans [OF io_only_emit_if_err io_only_emit_if_err])
next
  case (8 cb err0 res0 err res c)
  then show ?case by (auto intro: io_only_trans [OF io_only_emit_if_err])
qed

lemma io_only_fields:
  assumes "io_only c c'"
  shows "command_queue c' = command_queue c" "offline_queue c' = offline_queue c"
    "pub_sub_mode c' = pub_sub_mode c" "subscription_set c' = subscription_set c"
    "retry_timer c' = retry_timer c" "closing c' = closing c" "options c' = options c"
    "retry_delay c' = retry_delay c" "retry_totaltime c' = retry_totaltime c"
    "connect_timeout c' = connect_timeout c" "retry_max_delay c' = retry_max_delay c"
    "max_attempts c' = max_attempts c" "attempts c' = attempts c" "debug_mode c' = debug_mode c"
    "reply c' = reply c" "sub_commands_left c' = sub_commands_left c" "next_tick c' = next_tick c"
    "ready c' = ready c" "monitoring c' = monitoring c" "message_buffers c' = message_buffers c"
    "enable_offline_queue c' = enable_offline_queue c" "should_buffer c' = should_buffer c"
    "wire c' = wire c" "pipeline c' = pipeline c" "pipeline_queue c' = pipeline_queue c"
    "fire_strings c' = fire_strings c" "detect_buffers_reply c' = detect_buffers_reply c"
    "write_returns c' = write_returns c" "key_indexes c' = key_indexes c"
    "buffer_to_string c' = buffer_to_string c" "monitor_regex_test c' = monitor_regex_test c"
    "err_code_match c' = err_code_match c" "connected c' = connected c"
    "emitted_end c' = emitted_end c" "times_connected c' = times_connected c"
  using assms unfolding io_only_def by auto

lemma queues_io_onlyI:
  "c' = c\<lparr>writable := w, command_queue := cq, offline_queue := oq, trace := t\<rparr> \<Longrightarrow> queues_io_only c c'"
  unfolding queues_io_only_def by blast

lemma queues_io_only_refl: "queues_io_only c c"
  by (rule queues_io_onlyI [where w = "writable c" and cq = "command_queue c" and oq = "offline_queue c" and t = "trace c"]) simp

lemma queues_io_only_trans: "queues_io_only a b \<Longrightarrow> queues_io_only b c \<Longrightarrow> queues_io_only a c"
  unfolding queues_io_only_def by (elim exE) (simp, blast)

lemma io_only_queues_io_only: "io_only c c' \<Longrightarrow> queues_io_only c c'"
  unfolding io_only_def
proof (elim exE)
  fix w t
  assume "c' = c\<lparr>writable := w, trace := t\<rparr>"
  then show "queues_io_only c c'"
    by (intro queues_io_onlyI [where w = w and cq = "command_queue c" and oq = "offline_queue c" and t = t]) simp
qed

lemma queues_io_only_set_queue: "queues_io_only c (set_queue q xs c)"
proof (cases q)
  case CommandQueue
  then show ?thesis
    by (intro queues_io_onlyI [where w = "writable c" and cq = xs and oq = "offline_queue c" and t = "trace c"]) simp
next
  case OfflineQueue
  then show ?thesis
    by (intro queues_io_onlyI [where w = "writable c" and cq = "command_queue c" and oq = xs and t = "trace c"]) simp
qed

lemma queues_io_only_flush_queue:
  "queues_io_only c (snd (flush_queue q msg code_name origin xs aggregated c))"
proof (induction xs arbitrary: aggregated c)
  case Nil
  show ?case by (simp add: queues_io_only_refl)
next
  case (Cons x xs)
  show ?case
  proof (cases "callback x")
    case None
    then show ?thesis
      using queues_io_only_trans [OF queues_io_only_set_queue Cons.IH]
      by (simp add: Let_def)
  next
    case (Some cb)
    have "queues_io_only c (invoke cb (Some (JsError AbortError msg (Some code_name) (Some (to_upper (command x)))
            (if args x = [] then None else Some (args x)) origin [])) Undefined (set_queue q xs c))" (is "queues_io_only c ?c1")
      by (rule queues_io_only_trans [OF queues_io_only_set_queue io_only_queues_io_only [OF io_only_invoke]])
    from queues_io_only_trans [OF this Cons.IH] Some show ?thesis
      by (simp add: Let_def)
  qed
qed

lemma queues_io_only_flush_queues:
  "queues_io_only c (snd (snd (flush_queues qs msg code_name origin aggregated c)))"
proof (induction qs arbitrary: msg aggregated c)
  case Nil
  show ?case by (simp add: queues_io_only_refl)
next
  case (Cons q qs)
  show ?case
    using queues_io_only_trans [OF queues_io_only_flush_queue Cons.IH]
    by (simp add: Let_def split_beta)
qed

lemma queues_io_only_flush_and_error:
  "queues_io_only c (flush_and_error msg code_name origin queues c)"
  unfolding flush_and_error_def
  by (auto simp: Let_def split_beta
      intro: queues_io_only_flush_queues queues_io_only_trans [OF queues_io_only_flush_queues io_only_queues_io_only [OF io_only_emit]])

lemma queues_io_only_fields:
  assumes "queues_io_only c c'"
  shows
    "pub_sub_mode c' = pub_sub_mode c" "subscription_set c' = subscription_set c"
    "retry_timer c' = retry_timer c" "closing c' = closing c" "options c' = options c"
    "retry_delay c' = retry_delay c" "retry_totaltime c' = retry_totaltime c"
    "connect_timeout c' = connect_timeout c" "retry_max_delay c' = retry_max_delay c"
    "max_attempts c' = max_attempts c" "attempts c' = attempts c" "debug_mode c' = debug_mode c"
    "reply c' = reply c" "sub_commands_left c' = sub_commands_left c" "next_tick c' = next_tick c"
    "ready c' = ready c" "monitoring c' = monitoring c" "message_buffers c' = message_buffers c"
    "enable_offline_queue c' = enable_offline_queue c" "should_buffer c' = should_buffer c"
    "wire c' = wire c" "connected c' = connected c" "emitted_end c' = emitted_end c"
  using assms unfolding queues_io_only_def by auto

subsection \<open>Flushing\<close>

lemma get_set_queue: "get_queue q (set_queue q ys c) = ys"
  by (cases q) simp_all

lemma get_set_queue_other: "q' \<noteq> q \<Longrightarrow> get_queue q' (set_queue q ys c) = get_queue q' c"
  by (cases q; cases q') simp_all

lemma get_queue_invoke: "get_queue q (invoke cb e r c) = get_queue q c"
  using io_only_fields(1,2) [OF io_only_invoke [of c cb e r]] by (cases q) simp_all

lemma flush_queue_empties:
  "get_queue q (snd (flush_queue q msg code_name origin xs aggregated c)) =
     (if xs = [] then get_queue q c else [])"
proof (induction xs arbitrary: aggregated c)
  case Nil
  show ?case by simp
next
  case (Cons x xs)
  show ?case
    by (cases "callback x") (simp_all add: Let_def Cons.IH get_set_queue get_queue_invoke)
qed

lemma flush_queue_other:
  "q' \<noteq> q \<Longrightarrow> get_queue q' (snd (flush_queue q msg code_name origin xs aggregated c)) = get_queue q' c"
proof (induction xs arbitrary: aggregated c)
  case Nil
  show ?case by simp
next
  case (Cons x xs)
  show ?case
    by (cases "callback x")
       (simp_all add: Let_def Cons.IH [OF Cons.prems] get_set_queue_other [OF Cons.prems] get_queue_invoke)
qed

lemma flush_and_error_empties:
  "command_queue (flush_and_error msg code_name origin None c) = []"
  "offline_queue (flush_and_error msg code_name origin None c) = []"
proof -
  let ?m1 = "msg @ processed_suffix"
  let ?c1 = "snd (flush_queue CommandQueue ?m1 code_name origin (command_queue c) [] c)"
  let ?a1 = "fst (flush_queue CommandQueue ?m1 code_name origin (command_queue c) [] c)"
  let ?m2 = "replace_first processed_suffix [] ?m1"
  let ?c2 = "snd (flush_queue OfflineQueue ?m2 code_name origin (offline_queue ?c1) ?a1 ?c1)"
  have cq1: "command_queue ?c1 = []"
    using flush_queue_empties [of CommandQueue ?m1 code_name origin "command_queue c" "[]" c] by simp
  have cq2: "command_queue ?c2 = []"
    using flush_queue_other [of CommandQueue OfflineQueue ?m2 code_name origin "offline_queue ?c1" ?a1 ?c1] cq1
    by simp
  have oq2: "offline_queue ?c2 = []"
    using flush_queue_empties [of OfflineQueue ?m2 code_name origin "offline_queue ?c1" ?a1 ?c1] by simp
  show "command_queue (flush_and_error msg code_name origin None c) = []"
    by (simp add: flush_and_error_def Let_def split_beta cq2 emit_def)
  show "offline_queue (flush_and_error msg code_name origin None c) = []"
    by (simp add: flush_and_error_def Let_def split_beta oq2 emit_def)
qed


lemma trace_mono_emit_if_err: "set (trace c) \<subseteq> set (trace (emit_if_err err c))"
  by (auto simp: emit_if_err_def emit_def split: option.splits)

lemma trace_mono_invoke: "set (trace c) \<subseteq> set (trace (invoke cb err res c))"
proof (induction cb err res c rule: invoke.induct)
  case (1 n err res c)
  show ?case by (auto simp: perform_def)
next
  case (2 err res c)
  show ?case by (auto simp: perform_def split: option.splits)
next
  case (3 err res c)
  show ?case
    using trace_mono_emit_if_err [of c] by (auto simp: Let_def stream_destroy_def perform_def)
next
  case (4 cb err res c)
  have "set (trace c) \<subseteq> set (trace (invoke cb (if is_closed err then None else err)
          (if is_closed err then Str ''OK'' else res) c))"
    by (rule "4.IH" [OF refl refl])
  then show ?case by (auto simp: Let_def stream_destroy_def perform_def)
next
  case (5 fn err0 res0 err res c)
  then show ?case using trace_mono_emit_if_err [of "invoke fn err res c" err0] by auto
next
  case (6 fn cb err0 res0 err res c)
  then show ?case by auto
next
  case (7 err0 res0 err res c)
  show ?case
    using trace_mono_emit_if_err [of c err] trace_mono_emit_if_err [of "emit_if_err err c" err0] by auto
next
  case (8 cb err0 res0 err res c)
  then show ?case using trace_mono_emit_if_err [of c err] by auto
qed

lemma trace_set_queue: "trace (set_queue q xs c) = trace c"
  by (cases q) simp_all

lemma trace_mono_flush_queue:
  "set (trace c) \<subseteq> set (trace (snd (flush_queue q msg code_name origin xs aggregated c)))"
proof (induction xs arbitrary: aggregated c)
  case Nil
  show ?case by simp
next
  case (Cons x xs)
  show ?case
  proof (cases "callback x")
    case None
    then show ?thesis
      using Cons.IH [where c = "set_queue q xs c", unfolded trace_set_queue]
      by (simp add: Let_def)
  next
    case (Some cb)
    let ?c1 = "invoke cb (Some (JsError AbortError msg (Some code_name) (Some (to_upper (command x)))
            (if args x = [] then None else Some (args x)) origin [])) Undefined (set_queue q xs c)"
    have "set (trace c) \<subseteq> set (trace ?c1)"
      using trace_mono_invoke [of "set_queue q xs c"] by (simp add: trace_set_queue)
    with Cons.IH [where c = ?c1 and aggregated = aggregated] Some show ?thesis
      by (simp add: Let_def)
  qed
qed

lemma flush_queue_calls:
  assumes "x \<in> set xs" and "callback x = Some (User n)"
  shows "\<exists>e. Call n (Some e) Undefined \<in> set (trace (snd (flush_queue q msg code_name origin xs aggregated c)))
            \<and> err_kind e = AbortError \<and> err_code e = Some code_name"
  using assms
proof (induction xs arbitrary: aggregated c)
  case Nil
  then show ?case by simp
next
  case (Cons y ys)
  show ?case
  proof (cases "x = y")
    case True
    let ?e = "JsError AbortError msg (Some code_name) (Some (to_upper (command y)))
            (if args y = [] then None else Some (args y)) origin []"
    let ?c1 = "invoke (User n) (Some ?e) Undefined (set_queue q ys c)"
    have "Call n (Some ?e) Undefined \<in> set (trace ?c1)" by (simp add: perform_def)
    then have "Call n (Some ?e) Undefined \<in> set (trace (snd (flush_queue q msg code_name origin ys aggregated ?c1)))"
      using trace_mono_flush_queue [of ?c1] by blast
    moreover have "snd (flush_queue q msg code_name origin (y # ys) aggregated c)
        = snd (flush_queue q msg code_name origin ys aggregated ?c1)"
      using True Cons.prems(2) by (simp add: Let_def)
    ultimately show ?thesis
      by (intro exI [of _ ?e]) simp
  next
    case False
    with Cons.prems have "x \<in> set ys" by simp
    from Cons.IH [OF this Cons.prems(2)] show ?thesis
      by (cases "callback y") (simp_all add: Let_def)
  qed
qed

lemma flush_and_error_calls:
  assumes "x \<in> set (command_queue c) \<union> set (offline_queue c)" and "callback x = Some (User n)"
  shows "\<exists>e. Call n (Some e) Undefined \<in> set (trace (flush_and_error msg code_name origin None c))
            \<and> err_kind e = AbortError \<and> err_code e = Some code_name"
proof -
  let ?m1 = "msg @ processed_suffix"
  let ?r1 = "flush_queue CommandQueue ?m1 code_name origin (command_queue c) [] c"
  let ?m2 = "replace_first processed_suffix [] ?m1"
  let ?r2 = "flush_queue OfflineQueue ?m2 code_name origin (offline_queue (snd ?r1)) (fst ?r1) (snd ?r1)"
  have oq: "offline_queue (snd ?r1) = offline_queue c"
    using flush_queue_other [of OfflineQueue CommandQueue ?m1 code_name origin "command_queue c" "[]" c]
    by simp
  have sub: "set (trace (snd ?r2)) \<subseteq> set (trace (flush_and_error msg code_name origin None c))"
    by (auto simp: flush_and_error_def Let_def split_beta emit_def)
  have "\<exists>e. Call n (Some e) Undefined \<in> set (trace (snd ?r2))
            \<and> err_kind e = AbortError \<and> err_code e = Some code_name"
  proof (cases "x \<in> set (command_queue c)")
    case True
    from flush_queue_calls [OF True assms(2), of CommandQueue ?m1 code_name origin "[]" c]
    obtain e where "Call n (Some e) Undefined \<in> set (trace (snd ?r1))"
      "err_kind e = AbortError" "err_code e = Some code_name" by blast
    then show ?thesis using trace_mono_flush_queue [of "snd ?r1" OfflineQueue ?m2 code_name origin "offline_queue (snd ?r1)" "fst ?r1"]
      by blast
  next
    case False
    with assms(1) have "x \<in> set (offline_queue (snd ?r1))" by (simp add: oq)
    from flush_queue_calls [OF this assms(2)] show ?thesis .
  qed
  with sub show ?thesis by blast
qed

lemmas invoke_fields = io_only_fields [OF io_only_invoke]

lemmas flush_and_error_fields = queues_io_only_fields [OF queues_io_only_flush_and_error]

lemma gone_start_fields:
  "command_queue (gone_start c) = command_queue c" "offline_queue (gone_start c) = offline_queue c"
  "retry_timer (gone_start c) = retry_timer c" "closing (gone_start c) = closing c"
  "options (gone_start c) = options c" "retry_delay (gone_start c) = retry_delay c"
  "retry_totaltime (gone_start c) = retry_totaltime c" "connect_timeout (gone_start c) = connect_timeout c"
  "retry_max_delay (gone_start c) = retry_max_delay c" "max_attempts (gone_start c) = max_attempts c"
  "attempts (gone_start c) = attempts c" "subscription_set (gone_start c) = subscription_set c"
  "pub_sub_mode (gone_start c) = 0"
  by (simp_all add: gone_start_def Let_def emit_def)

lemma connection_gone_no_strategy:
  assumes "retry_timer c = None" "\<not> closing c" "retry_strategy (options c) = None"
  shows "connection_gone why error c = schedule_retry error (gone_start c)"
  using assms by (simp add: connection_gone_def gone_start_def Let_def emit_def)

subsection \<open>Sending\<close>

lemma normalize_args_copy:
  "fst (normalize_args name as args_copy big_data buf_args c) = args_copy @ map args_copy_entry as"
  by (induction name as args_copy big_data buf_args c rule: normalize_args.induct) simp_all

lemma normalize_args_big:
  "fst (snd (normalize_args name as args_copy big_data buf_args c))
     = (big_data \<or> (\<exists>a \<in> set as. sets_big_data a))"
  by (induction name as args_copy big_data buf_args c rule: normalize_args.induct) auto

lemma normalize_args_io_only:
  "io_only c (snd (snd (snd (normalize_args name as args_copy big_data buf_args c))))"
proof (induction name as args_copy big_data buf_args c rule: normalize_args.induct)
  case (1 name args_copy big_data buf_args c)
  show ?case by (simp add: io_only_refl)
next
  case (4 name rest args_copy big_data buf_args c)
  then show ?case by (simp add: warn_def) (rule io_only_trans [OF io_only_perform])
next
  case (6 name t rest args_copy big_data buf_args c)
  then show ?case by (simp add: warn_def) (rule io_only_trans [OF io_only_perform])
next
  case (7 name rest args_copy big_data buf_args c)
  then show ?case by (simp add: warn_def) (rule io_only_trans [OF io_only_perform])
qed simp_all

lemma byteLength_bmp: "byteLength (replicate n (0x20AC :: code_unit)) = 3 * n"
  by (induction n) simp_all

lemma run_hook_wire [simp]:
  "wire (run_hook h c) = wire c" "fire_strings (run_hook h c) = fire_strings c"
  by (cases h; simp)+

lemma set_queue_fields [simp]:
  "wire (set_queue q xs c) = wire c" "fire_strings (set_queue q xs c) = fire_strings c"
  "pub_sub_mode (set_queue q xs c) = pub_sub_mode c" "reply (set_queue q xs c) = reply c"
  "trace (set_queue q xs c) = trace c" "next_tick (set_queue q xs c) = next_tick c"
  "subscription_set (set_queue q xs c) = subscription_set c"
  "should_buffer (set_queue q xs c) = should_buffer c"
  "sub_commands_left (set_queue q xs c) = sub_commands_left c"
  "monitoring (set_queue q xs c) = monitoring c" "options (set_queue q xs c) = options c"
  "closing (set_queue q xs c) = closing c" "ready (set_queue q xs c) = ready c"
  "writable (set_queue q xs c) = writable c" "retry_timer (set_queue q xs c) = retry_timer c"
  by (cases q; simp)+

lemma reply_in_order_wire [simp]:
  "wire (reply_in_order cb err res q c) = wire c"
  "fire_strings (reply_in_order cb err res q c) = fire_strings c"
  by (simp_all add: reply_in_order_def Let_def)

lemma write_data_fields [simp]:
  "command_queue (write_data d c) = command_queue c" "offline_queue (write_data d c) = offline_queue c"
  "reply (write_data d c) = reply c" "pub_sub_mode (write_data d c) = pub_sub_mode c"
  "next_tick (write_data d c) = next_tick c" "trace (write_data d c) = trace c"
  "subscription_set (write_data d c) = subscription_set c"
  "sub_commands_left (write_data d c) = sub_commands_left c"
  "monitoring (write_data d c) = monitoring c" "options (write_data d c) = options c"
  "closing (write_data d c) = closing c" "ready (write_data d c) = ready c"
  "writable (write_data d c) = writable c" "retry_timer (write_data d c) = retry_timer c"
  by (simp_all add: write_data_def)

lemma normalize_args_buf:
  "fst (snd (snd (normalize_args name as args_copy big_data buf_args c)))
     = (buf_args \<or> (\<exists>a \<in> set as. is_binary a))"
  by (induction name as args_copy big_data buf_args c rule: normalize_args.induct) auto

lemma normalize_args_writable:
  "writable (snd (snd (snd (normalize_args name as args_copy big_data buf_args c)))) = writable c"
  by (induction name as args_copy big_data buf_args c rule: normalize_args.induct)
     (simp_all add: warn_def perform_def)

lemma normalize_args_trace:
  "filter is_call (trace (snd (snd (snd (normalize_args name as args_copy big_data buf_args c)))))
     = filter is_call (trace c)"
  "filter is_pubsub_event (trace (snd (snd (snd (normalize_args name as args_copy big_data buf_args c)))))
     = filter is_pubsub_event (trace c)"
  by (induction name as args_copy big_data buf_args c rule: normalize_args.induct)
     (simp_all add: warn_def perform_def)

lemmas normalize_args_fields = io_only_fields [OF normalize_args_io_only]

lemma write_big_args_fields [simp]:
  "command_queue (write_big_args as c) = command_queue c"
  "offline_queue (write_big_args as c) = offline_queue c"
  "reply (write_big_args as c) = reply c" "pub_sub_mode (write_big_args as c) = pub_sub_mode c"
  "next_tick (write_big_args as c) = next_tick c" "trace (write_big_args as c) = trace c"
  "subscription_set (write_big_args as c) = subscription_set c"
  "sub_commands_left (write_big_args as c) = sub_commands_left c"
  "monitoring (write_big_args as c) = monitoring c" "options (write_big_args as c) = options c"
  "closing (write_big_args as c) = closing c" "ready (write_big_args as c) = ready c"
  "writable (write_big_args as c) = writable c" "retry_timer (write_big_args as c) = retry_timer c"
  by (induction as c rule: write_big_args.induct; simp)+

lemma write_command_fst:
  "fst (write_command c command_obj)
     = command_obj\<lparr>buffer_args := (buffer_args command_obj \<or> (\<exists>a \<in> set (args command_obj). is_binary a))\<rparr>"
  by (simp add: write_command_def Let_def split_beta normalize_args_buf)

lemma write_command_fields [simp]:
  "command_queue (snd (write_command c command_obj)) = command_queue c"
  "offline_queue (snd (write_command c command_obj)) = offline_queue c"
  "reply (snd (write_command c command_obj)) = reply c"
  "pub_sub_mode (snd (write_command c command_obj)) = pub_sub_mode c"
  "next_tick (snd (write_command c command_obj)) = next_tick c"
  "subscription_set (snd (write_command c command_obj)) = subscription_set c"
  "sub_commands_left (snd (write_command c command_obj)) = sub_commands_left c"
  "monitoring (snd (write_command c command_obj)) = monitoring c"
  "options (snd (write_command c command_obj)) = options c"
  "closing (snd (write_command c command_obj)) = closing c"
  "ready (snd (write_command c command_obj)) = ready c"
  "retry_timer (snd (write_command c command_obj)) = retry_timer c"
  "filter is_call (trace (snd (write_command c command_obj))) = filter is_call (trace c)"
  "filter is_pubsub_event (trace (snd (write_command c command_obj))) = filter is_pubsub_event (trace c)"
  by (simp_all add: write_command_def Let_def split_beta normalize_args_fields normalize_args_trace)


lemma run_hook_fields [simp]:
  "command_queue (run_hook h c) = command_queue c" "offline_queue (run_hook h c) = offline_queue c"
  "next_tick (run_hook h c) = next_tick c" "trace (run_hook h c) = trace c"
  "subscription_set (run_hook h c) = subscription_set c"
  "sub_commands_left (run_hook h c) = sub_commands_left c"
  "options (run_hook h c) = options c"
  by (cases h; simp)+

lemma run_hook_reply: "reply (run_hook h c) = (case h of SetReply m \<Rightarrow> m | _ \<Rightarrow> reply c)"
  by (cases h) simp_all

lemma run_hook_pub_sub_mode:
  "pub_sub_mode (run_hook h c)
     = (if h = EnterPubSub \<and> pub_sub_mode c = 0 then length (command_queue c) + 1 else pub_sub_mode c)"
  by (cases h) simp_all

lemma reply_in_order_fields [simp]:
  "reply (reply_in_order cb err res q c) = reply c"
  "pub_sub_mode (reply_in_order cb err res q c) = pub_sub_mode c"
  "trace (reply_in_order cb err res q c) = trace c"
  "subscription_set (reply_in_order cb err res q c) = subscription_set c"
  "sub_commands_left (reply_in_order cb err res q c) = sub_commands_left c"
  by (simp_all add: reply_in_order_def Let_def)


lemma internal_send_command_ready:
  assumes "ready c" and "writable c"
  shows "snd (internal_send_command c command_obj) =
     (let command_obj' = command_obj\<lparr>callback := Some (sink_of command_obj)\<rparr>;
          c2 = snd (write_command c command_obj');
          c3 = (case call_on_write command_obj of Some h \<Rightarrow> run_hook h c2 | None \<Rightarrow> c2)
      in expect_reply c3 (queued_form command_obj))"
proof -
  have cb: "(if callback command_obj = None then command_obj\<lparr>callback := Some Deferred\<rparr> else command_obj)
        = command_obj\<lparr>callback := Some (sink_of command_obj)\<rparr>"
    by (cases "callback command_obj") (simp_all add: sink_of_def)
  show ?thesis
    using assms
    unfolding internal_send_command_def Let_def cb
    by (simp add: split_beta write_command_fst queued_form_def)
qed


lemma mode_after_hook_reply:
  "reply (case call_on_write command_obj of Some h \<Rightarrow> run_hook h c2 | None \<Rightarrow> c2)
     = (case call_on_write command_obj of Some (SetReply m) \<Rightarrow> m | _ \<Rightarrow> reply c2)"
  by (simp add: run_hook_reply split: option.splits hook.splits)

lemma hook_fields [simp]:
  "command_queue (case h of Some x \<Rightarrow> run_hook x c | None \<Rightarrow> c) = command_queue c"
  "next_tick (case h of Some x \<Rightarrow> run_hook x c | None \<Rightarrow> c) = next_tick c"
  "offline_queue (case h of Some x \<Rightarrow> run_hook x c | None \<Rightarrow> c) = offline_queue c"
  "trace (case h of Some x \<Rightarrow> run_hook x c | None \<Rightarrow> c) = trace c"
  "subscription_set (case h of Some x \<Rightarrow> run_hook x c | None \<Rightarrow> c) = subscription_set c"
  "sub_commands_left (case h of Some x \<Rightarrow> run_hook x c | None \<Rightarrow> c) = sub_commands_left c"
  by (cases h; simp)+

lemma queued_form_fields [simp]:
  "callback (queued_form command_obj) = Some (sink_of command_obj)"
  "command (queued_form command_obj) = command command_obj"
  "args (queued_form command_obj) = args command_obj"
  "call_on_write (queued_form command_obj) = call_on_write command_obj"
  by (simp_all add: queued_form_def)



lemma reply_in_order_more_fields [simp]:
  "ready (reply_in_order cb err res q c) = ready c"
  "writable (reply_in_order cb err res q c) = writable c"
  "closing (reply_in_order cb err res q c) = closing c"
  "monitoring (reply_in_order cb err res q c) = monitoring c"
  "options (reply_in_order cb err res q c) = options c"
  by (simp_all add: reply_in_order_def Let_def)

lemma expect_reply_fields [simp]:
  "pub_sub_mode (expect_reply c command_obj) = pub_sub_mode c"
  "subscription_set (expect_reply c command_obj) = subscription_set c"
  "sub_commands_left (expect_reply c command_obj) = sub_commands_left c"
  "trace (expect_reply c command_obj) = trace c"
  "ready (expect_reply c command_obj) = ready c"
  "writable (expect_reply c command_obj) = writable c"
  "monitoring (expect_reply c command_obj) = monitoring c"
  "options (expect_reply c command_obj) = options c"
  by (simp_all add: expect_reply_def Let_def)

lemma write_command_writable [simp]:
  "writable (snd (write_command c command_obj)) = writable c"
  by (simp add: write_command_def Let_def split_beta normalize_args_writable)

lemma run_hook_flags [simp]:
  "writable (run_hook h c) = writable c"
  "ready (run_hook h c) = (h \<noteq> SetClosing \<and> ready c)"
  "monitoring (run_hook h c) = (h = SetMonitoring \<or> monitoring c)"
  by (cases h; simp)+

lemma send_ready_fields:
  assumes "ready c" and "writable c"
  shows "pub_sub_mode (snd (internal_send_command c command_obj))
           = (if call_on_write command_obj = Some EnterPubSub \<and> pub_sub_mode c = 0
              then length (command_queue c) + 1 else pub_sub_mode c)"
    and "subscription_set (snd (internal_send_command c command_obj)) = subscription_set c"
    and "sub_commands_left (snd (internal_send_command c command_obj)) = sub_commands_left c"
    and "filter is_call (trace (snd (internal_send_command c command_obj))) = filter is_call (trace c)"
    and "filter is_pubsub_event (trace (snd (internal_send_command c command_obj)))
           = filter is_pubsub_event (trace c)"
    and "writable (snd (internal_send_command c command_obj))"
    and "call_on_write command_obj \<noteq> Some SetClosing \<Longrightarrow> ready (snd (internal_send_command c command_obj))"
    and "options (snd (internal_send_command c command_obj)) = options c"
    and "call_on_write command_obj \<noteq> Some SetMonitoring \<Longrightarrow>
           monitoring (snd (internal_send_command c command_obj)) = monitoring c"
  using assms
  by (auto simp: internal_send_command_ready [OF assms] Let_def run_hook_pub_sub_mode
      split: option.splits hook.splits)

lemma send_ready_on:
  assumes "ready c" and "writable c" and "mode_after_hook c command_obj = ON"
  shows "command_queue (snd (internal_send_command c command_obj)) = command_queue c @ [queued_form command_obj]"
    and "next_tick (snd (internal_send_command c command_obj)) = next_tick c"
    and "reply (snd (internal_send_command c command_obj)) = ON"
proof -
  let ?c2 = "snd (write_command c (command_obj\<lparr>callback := Some (sink_of command_obj)\<rparr>))"
  let ?c3 = "case call_on_write command_obj of Some h \<Rightarrow> run_hook h ?c2 | None \<Rightarrow> ?c2"
  have m: "reply ?c3 = ON"
    using assms(3)
    by (simp add: mode_after_hook_reply mode_after_hook_def split: option.splits hook.splits)
  have eq: "snd (internal_send_command c command_obj)
      = ?c3\<lparr>command_queue := command_queue ?c3 @ [queued_form command_obj]\<rparr>"
    using m by (simp add: internal_send_command_ready [OF assms(1,2)] Let_def expect_reply_def)
  show "command_queue (snd (internal_send_command c command_obj)) = command_queue c @ [queued_form command_obj]"
    "next_tick (snd (internal_send_command c command_obj)) = next_tick c"
    "reply (snd (internal_send_command c command_obj)) = ON"
    unfolding eq using m by simp_all
qed

lemma ready_client_fields:
  "ready ready_client" "writable ready_client" "reply ready_client = ON"
  "command_queue ready_client = []" "offline_queue ready_client = []" "next_tick ready_client = []"
  "trace ready_client = []" "pub_sub_mode ready_client = 0" "subscription_set ready_client = []"
  "sub_commands_left ready_client = Num 0" "\<not> monitoring ready_client"
  "\<not> return_buffers (options ready_client)" "\<not> detect_buffers (options ready_client)"
  "\<not> detect_buffers_reply ready_client" "\<not> closing ready_client" "retry_timer ready_client = None"
  by (simp_all add: ready_client_def new_client_def default_options_def)

subsection \<open>Pub/sub\<close>


lemma ack_emit_fields [simp]:
  "command_queue (ack_emit c type channel count) = command_queue c"
  "sub_commands_left (ack_emit c type channel count) = sub_commands_left c"
  "pub_sub_mode (ack_emit c type channel count) = pub_sub_mode c"
  "filter is_call (trace (ack_emit c type channel count)) = filter is_call (trace c)"
  by (simp_all add: ack_emit_def Let_def emit_def)

lemma ack_emit_Null [simp]: "ack_emit c type Null count = c"
  by (simp add: ack_emit_def)

lemma ack_channel_Null [simp]: "ack_channel c command_obj data = Null \<longleftrightarrow> elem data 1 = Null"
  by (simp add: ack_channel_def Let_def)

lemma normal_reply_shifts:
  assumes "normal_reply c data = Inr c'"
  shows "command_queue c \<noteq> [] \<and> command_queue c' = tl (command_queue c)
         \<and> pub_sub_mode c' = pub_sub_mode c"
  using assms
  by (auto simp: normal_reply_def Let_def invoke_fields split: list.splits option.splits if_splits sum.splits)

lemma return_pub_sub_message:
  assumes "to_string (elem data 0) = Inr ''message'' \<or> to_string (elem data 0) = Inr ''pmessage''"
    and "return_pub_sub c data = Inr c'"
  shows "command_queue c' = command_queue c \<and> pub_sub_mode c' = pub_sub_mode c"
  using assms
  by (auto simp: return_pub_sub_def emit_def split: sum.splits if_splits)

subsection \<open>The concrete runs\<close>


lemma client_hook_off: "client_hook c reply_off_args = Inr (Some (SetReply OFF))"
proof -
  have "to_upper16 (str16 ''REPLY'') = str16 ''REPLY''" "to_upper16 (str16 ''OFF'') = str16 ''OFF''"
    "str16 ''OFF'' \<noteq> str16 ''ON''"
    by code_simp+
  then show ?thesis by (simp add: client_hook_def arg_upper_def reply_off_args_def)
qed

lemma client_hook_skip: "client_hook c reply_skip_args = Inr (Some (SetReply SKIP))"
proof -
  have "to_upper16 (str16 ''REPLY'') = str16 ''REPLY''" "to_upper16 (str16 ''SKIP'') = str16 ''SKIP''"
    "str16 ''SKIP'' \<noteq> str16 ''ON''" "str16 ''SKIP'' \<noteq> str16 ''OFF''"
    by code_simp+
  then show ?thesis by (simp add: client_hook_def arg_upper_def reply_skip_args_def)
qed


lemma sent_fields:
  assumes "ready c" and "writable c" and "reply c = ON" and "callback command_obj = Some cb"
    and "\<forall>a \<in> set (args command_obj). \<not> is_binary a" and "\<not> buffer_args command_obj"
    and "call_on_write command_obj = None \<or> call_on_write command_obj = Some EnterPubSub"
  shows "command_queue (snd (internal_send_command c command_obj)) = command_queue c @ [command_obj]"
    and "reply (snd (internal_send_command c command_obj)) = ON"
    and "ready (snd (internal_send_command c command_obj))"
    and "writable (snd (internal_send_command c command_obj))"
    and "monitoring (snd (internal_send_command c command_obj)) = monitoring c"
proof -
  have m: "mode_after_hook c command_obj = ON"
    using assms(3,7) by (auto simp: mode_after_hook_def)
  have q: "queued_form command_obj = command_obj"
    using assms(4,5,6) by (simp add: queued_form_def sink_of_def)
  have h: "call_on_write command_obj \<noteq> Some SetClosing" "call_on_write command_obj \<noteq> Some SetMonitoring"
    using assms(7) by auto
  show "command_queue (snd (internal_send_command c command_obj)) = command_queue c @ [command_obj]"
    using send_ready_on(1) [OF assms(1,2) m] q by simp
  show "reply (snd (internal_send_command c command_obj)) = ON"
    by (rule send_ready_on(3) [OF assms(1,2) m])
  show "ready (snd (internal_send_command c command_obj))"
    by (rule send_ready_fields(7) [OF assms(1,2) h(1)])
  show "writable (snd (internal_send_command c command_obj))"
    by (rule send_ready_fields(6) [OF assms(1,2)])
  show "monitoring (snd (internal_send_command c command_obj)) = monitoring c"
    by (rule send_ready_fields(9) [OF assms(1,2) h(2)])
qed




lemma get_client_fields:
  "command_queue get_client = [get_foo]" "reply get_client = ON" "ready get_client"
  "writable get_client" "\<not> monitoring get_client" "pub_sub_mode get_client = 0"
  using sent_fields [OF ready_client_fields(1,2,3), of get_foo "User 1"]
    send_ready_fields(1) [OF ready_client_fields(1,2), of get_foo]
  by (simp_all add: get_client_def ready_client_fields)
     (simp_all add: get_foo_def Command_def)

lemma get_then_sub_fields:
  "command_queue get_then_sub = [get_foo, sub_a]" "pub_sub_mode get_then_sub = 2"
  "\<not> monitoring get_then_sub"
  using sent_fields(1,5) [OF get_client_fields(3,4,2), of sub_a "User 0"]
    send_ready_fields(1) [OF get_client_fields(3,4), of sub_a]
  by (simp_all add: get_then_sub_def subscribe_def sub_a_def [symmetric] get_client_fields)
     (simp_all add: sub_a_def Command_def)

section \<open>The retry budget\<close>

text \<open>
  Claim C3, as amended. When no retry timer is pending, the client is not closing,
  no \<open>retry_strategy\<close> is configured and, at a disconnect, either
  \<open>max_attempts > 0\<close> and \<open>attempts \<ge> max_attempts\<close>, or
  \<open>retry_totaltime \<ge> connect_timeout\<close>: both queues are flushed, every queued
  command with a user sink has it called with an AbortError of code
  \<open>CONNECTION_BROKEN\<close>, an \<open>error\<close> event with code \<open>CONNECTION_BROKEN\<close> is
  emitted, and the client ends (closing, stream destroyed) with no retry timer set.
\<close>

theorem connection_gone_broken:
  assumes "retry_timer c = None" and "\<not> closing c" and "retry_strategy (options c) = None"
    and "max_attempts c > 0 \<and> attempts c \<ge> max_attempts c \<or> retry_totaltime c \<ge> connect_timeout c"
  shows "command_queue (connection_gone why error c) = []
    \<and> offline_queue (connection_gone why error c) = []
    \<and> (\<forall>command_obj \<in> set (command_queue c) \<union> set (offline_queue c). \<forall>n.
          callback command_obj = Some (User n) \<longrightarrow>
          (\<exists>e. Call n (Some e) Undefined \<in> set (trace (connection_gone why error c))
              \<and> err_kind e = AbortError \<and> err_code e = Some ''CONNECTION_BROKEN''))
    \<and> (\<exists>msg. Emit (EvError (JsError PlainError msg (Some ''CONNECTION_BROKEN'') None None error []))
          \<in> set (trace (connection_gone why error c)))
    \<and> closing (connection_gone why error c)
    \<and> \<not> writable (connection_gone why error c)
    \<and> retry_timer (connection_gone why error c) = None"
proof -
  let ?c2 = "gone_start c"
  let ?msg = "''Redis connection in broken state: '' @
                     (if retry_totaltime ?c2 \<ge> connect_timeout ?c2 then ''connection timeout exceeded.''
                      else ''maximum connection attempts exceeded.'')"
  let ?c3 = "flush_and_error ?msg ''CONNECTION_BROKEN'' error None ?c2"
  let ?err = "JsError PlainError ?msg (Some ''CONNECTION_BROKEN'') None None error []"
  let ?c' = "connection_gone why error c"
  have eq: "?c' = end_client False (emit (EvError ?err) ?c3)"
    using assms(4) by (auto simp: connection_gone_no_strategy [OF assms(1-3)] schedule_retry_def
        gone_start_fields Let_def)
  have tr: "trace ?c' = trace ?c3 @ [Emit (EvError ?err), StreamDestroy]"
    unfolding eq
    by (simp add: end_client_def Let_def stream_destroy_def perform_def emit_def)
  have calls: "\<exists>e. Call n (Some e) Undefined \<in> set (trace ?c')
              \<and> err_kind e = AbortError \<and> err_code e = Some ''CONNECTION_BROKEN''"
    if "x \<in> set (command_queue c) \<union> set (offline_queue c)" "callback x = Some (User n)" for x n
  proof -
    from that(1) have "x \<in> set (command_queue ?c2) \<union> set (offline_queue ?c2)"
      by (simp add: gone_start_fields)
    from flush_and_error_calls [OF this that(2), of ?msg "''CONNECTION_BROKEN''" error]
    show ?thesis unfolding tr by auto
  qed
  have "command_queue ?c' = []" "offline_queue ?c' = []"
    unfolding eq
    by (simp_all add: end_client_def Let_def stream_destroy_def perform_def emit_def
        flush_and_error_empties)
  moreover have "\<exists>msg. Emit (EvError (JsError PlainError msg (Some ''CONNECTION_BROKEN'') None None error []))
          \<in> set (trace ?c')"
    unfolding tr by (intro exI [of _ ?msg]) simp
  moreover have "closing ?c'" "\<not> writable ?c'"
    unfolding eq
    by (simp_all add: end_client_def Let_def stream_destroy_def perform_def emit_def)
  moreover have "retry_timer ?c' = None"
    unfolding eq using assms(1)
    by (simp add: end_client_def Let_def stream_destroy_def perform_def emit_def
        flush_and_error_fields gone_start_fields)
  ultimately show ?thesis using calls by blast
qed

theorem connection_gone_broken_witness:
  "retry_timer exhausted_client = None \<and> \<not> closing exhausted_client
   \<and> retry_strategy (options exhausted_client) = None
   \<and> max_attempts exhausted_client > 0
   \<and> attempts exhausted_client \<ge> max_attempts exhausted_client
   \<and> get_foo \<in> set (offline_queue exhausted_client)
   \<and> command_queue (connection_gone ''close'' None exhausted_client) = []
   \<and> offline_queue (connection_gone ''close'' None exhausted_client) = []
   \<and> (\<exists>e. Call 1 (Some e) Undefined \<in> set (trace (connection_gone ''close'' None exhausted_client))
          \<and> err_kind e = AbortError \<and> err_code e = Some ''CONNECTION_BROKEN'')
   \<and> closing (connection_gone ''close'' None exhausted_client)
   \<and> retry_timer (connection_gone ''close'' None exhausted_client) = None"
proof -
  have h1: "retry_timer exhausted_client = None" by code_simp
  have h2: "\<not> closing exhausted_client" by code_simp
  have h3: "retry_strategy (options exhausted_client) = None" by code_simp
  have h4: "max_attempts exhausted_client > 0 \<and> attempts exhausted_client \<ge> max_attempts exhausted_client"
    by code_simp
  have h5: "get_foo \<in> set (offline_queue exhausted_client)" by code_simp
  have h6: "callback get_foo = Some (User 1)" by (simp add: get_foo_def Command_def)
  from h4 have h4': "max_attempts exhausted_client > 0 \<and> attempts exhausted_client \<ge> max_attempts exhausted_client
      \<or> retry_totaltime exhausted_client \<ge> connect_timeout exhausted_client" by blast
  from connection_gone_broken [OF h1 h2 h3 h4', of "''close''" None] h1 h2 h3 h4 h5 h6
  show ?thesis by blast
qed

text \<open>
  Claim C3 as stated fails when the client is closing: with \<open>max_attempts = 3\<close>
  reached and no \<open>retry_strategy\<close>, a disconnect after \<open>quit\<close> flushes the QUIT
  with \<open>NR_CLOSED\<close> (its sink gets \<open>(null, "OK")\<close>) and emits no error.
\<close>

theorem connection_gone_closing_counterexample:
  "retry_strategy (options quitting_client) = None
   \<and> max_attempts quitting_client > 0
   \<and> attempts quitting_client \<ge> max_attempts quitting_client
   \<and> retry_timer quitting_client = None
   \<and> trace (connection_gone ''close'' None quitting_client)
       = trace quitting_client @ [Call 0 None (Str ''OK''), StreamDestroy]"
  by code_simp

text \<open>
  Claim C2. The cap at \<open>connect_timeout - retry_totaltime\<close> is in the \<open>else\<close>
  branch of the cap at \<open>retry_max_delay\<close>: when the delay exceeds
  \<open>retry_max_delay\<close>, the timer is set to \<open>retry_max_delay\<close>, whatever is left of
  the budget.
\<close>

theorem connection_gone_max_delay_only:
  assumes "retry_timer c = None" and "\<not> closing c" and "retry_strategy (options c) = None"
    and "\<not> (max_attempts c \<noteq> 0 \<and> attempts c \<ge> max_attempts c \<or> retry_totaltime c \<ge> connect_timeout c)"
    and "retry_max_delay c = Some m" and "retry_delay c > m"
  shows "retry_timer (connection_gone why error c) = Some (m, error)"
proof -
  have budget: "\<not> (max_attempts (gone_start c) \<noteq> 0 \<and> attempts (gone_start c) \<ge> max_attempts (gone_start c)
                \<or> retry_totaltime (gone_start c) \<ge> connect_timeout (gone_start c))"
    using assms(4) by (simp add: gone_start_fields)
  show ?thesis
    unfolding connection_gone_no_strategy [OF assms(1-3)] schedule_retry_def if_not_P [OF budget]
    using assms(5,6)
    by (simp add: Let_def flush_and_error_fields gone_start_fields)
qed


theorem connection_gone_max_delay_only_witness:
  "retry_timer capped_client = None \<and> \<not> closing capped_client
   \<and> retry_strategy (options capped_client) = None
   \<and> max_attempts capped_client = 0
   \<and> retry_totaltime capped_client < connect_timeout capped_client
   \<and> retry_max_delay capped_client = Some 1000 \<and> retry_delay capped_client = 1671
   \<and> connect_timeout capped_client - retry_totaltime capped_client = 399
   \<and> retry_timer (connection_gone ''close'' None capped_client) = Some (1000, None)"
proof -
  have h1: "retry_timer capped_client = None" by code_simp
  have h2: "\<not> closing capped_client" by code_simp
  have h3: "retry_strategy (options capped_client) = None" by code_simp
  have h4: "max_attempts capped_client = 0" by code_simp
  have h5: "retry_totaltime capped_client < connect_timeout capped_client" by code_simp
  have h6: "retry_max_delay capped_client = Some 1000" by code_simp
  have h7: "retry_delay capped_client = 1671" by code_simp
  have h8: "connect_timeout capped_client - retry_totaltime capped_client = 399" by code_simp
  from h4 h5 have b: "\<not> (max_attempts capped_client \<noteq> 0 \<and> attempts capped_client \<ge> max_attempts capped_client
      \<or> retry_totaltime capped_client \<ge> connect_timeout capped_client)" by simp
  from h7 have d: "retry_delay capped_client > 1000" by simp
  from connection_gone_max_delay_only [OF h1 h2 h3 b h6 d, of "''close''" None] h1 h2 h3 h4 h5 h6 h7 h8
  show ?thesis by blast
qed

section \<open>The reply of HGETALL\<close>







section \<open>Argument normalization\<close>

text \<open>
  Claim C7, as amended. For every text argument of a command sent while ready: an
  argument whose length in UTF-16 code units (the JavaScript string length) is
  greater than 30000 is promoted to a Buffer of its UTF-8 bytes, setting
  \<open>big_data\<close>, before serialization; one of length at most 30000 stays a
  string. On an uncorked client without key prefix, a command with one such
  argument is written as one string when the length is at most 30000, and as
  header, length line, Buffer and line end when it is more.
\<close>

theorem text_argument_promotion:
  "(i < length as \<and> as ! i = Text s \<longrightarrow>
      (length s > 30000 \<longrightarrow>
         fst (normalize_args name as [] False buf_args c) ! i = WBuf (utf8_encode s)
         \<and> fst (snd (normalize_args name as [] False buf_args c)))
    \<and> (length s \<le> 30000 \<longrightarrow> fst (normalize_args name as [] False buf_args c) ! i = WText s))
   \<and> (ready c \<and> writable c \<and> pipeline c = False \<and> prefix (options c) = None \<longrightarrow>
        wire (snd (internal_send_command c (Command name [Text s] cb h)))
          = wire c @
              (if length s > 30000 then
                 [FStr (multi_bulk_header 1 (wire_command c name)),
                  FStr (bulk_header (length (utf8_encode s))), FBuf (utf8_encode s), FStr crlf]
               else
                 [FStr (multi_bulk_header 1 (wire_command c name) @ bulk_header (byteLength s) @ s @ crlf)])
        \<and> fire_strings (snd (internal_send_command c (Command name [Text s] cb h)))
            = (fire_strings c \<and> length s \<le> 30000))"
proof (intro conjI impI)
  assume a: "i < length as \<and> as ! i = Text s"
  then have e: "fst (normalize_args name as [] False buf_args c) ! i = args_copy_entry (Text s)"
    by (simp add: normalize_args_copy)
  show "length s \<le> 30000 \<Longrightarrow> fst (normalize_args name as [] False buf_args c) ! i = WText s"
    using e by simp
  show "30000 < length s \<Longrightarrow> fst (normalize_args name as [] False buf_args c) ! i = WBuf (utf8_encode s)"
    using e by simp
  show "30000 < length s \<Longrightarrow> fst (snd (normalize_args name as [] False buf_args c))"
    using a nth_mem [of i as] by (auto simp: normalize_args_big intro!: bexI [of _ "Text s"])
next
  assume r: "ready c \<and> writable c \<and> pipeline c = False \<and> prefix (options c) = None"
  then show "wire (snd (internal_send_command c (Command name [Text s] cb h)))
          = wire c @
              (if length s > 30000 then
                 [FStr (multi_bulk_header 1 (wire_command c name)),
                  FStr (bulk_header (length (utf8_encode s))), FBuf (utf8_encode s), FStr crlf]
               else
                 [FStr (multi_bulk_header 1 (wire_command c name) @ bulk_header (byteLength s) @ s @ crlf)])"
    by (simp add: internal_send_command_def write_command_def expect_reply_def Command_def Let_def
        write_data_def wire_text_def wire_command_def split: option.splits)
  from r show "fire_strings (snd (internal_send_command c (Command name [Text s] cb h)))
            = (fire_strings c \<and> length s \<le> 30000)"
    by (simp add: internal_send_command_def write_command_def expect_reply_def Command_def Let_def
        write_data_def wire_text_def wire_command_def split: option.splits)
qed


theorem text_argument_promotion_witness:
  "length text_30000 = 30000 \<and> length text_30001 = 30001
   \<and> ready ready_client \<and> writable ready_client \<and> pipeline ready_client = False
   \<and> prefix (options ready_client) = None
   \<and> fst (normalize_args ''set'' [Text text_30000] [] False False ready_client) ! 0 = WText text_30000
   \<and> fst (normalize_args ''set'' [Text text_30001] [] False False ready_client) ! 0
        = WBuf (utf8_encode text_30001)
   \<and> wire (snd (internal_send_command ready_client (Command ''set'' [Text text_30000] None None)))
        = [FStr (multi_bulk_header 1 ''set'' @ bulk_header (byteLength text_30000) @ text_30000 @ crlf)]
   \<and> wire (snd (internal_send_command ready_client (Command ''set'' [Text text_30001] None None)))
        = [FStr (multi_bulk_header 1 ''set''), FStr (bulk_header (length (utf8_encode text_30001))),
           FBuf (utf8_encode text_30001), FStr crlf]"
proof -
  have l0: "length text_30000 = 30000" by (simp add: text_30000_def)
  have l1: "length text_30001 = 30001" by (simp add: text_30001_def)
  have r: "ready ready_client" "writable ready_client" "pipeline ready_client = False"
    "prefix (options ready_client) = None" "wire ready_client = []"
    "wire_command ready_client ''set'' = ''set''"
    by (simp_all add: ready_client_def new_client_def default_options_def wire_command_def)
  from text_argument_promotion [of 0 "[Text text_30000]" text_30000 "''set''" False ready_client None None]
    text_argument_promotion [of 0 "[Text text_30001]" text_30001 "''set''" False ready_client None None]
    l0 l1 r
  show ?thesis by simp
qed

text \<open>
  Claim C7 as stated counts bytes. A string of 10001 euro signs is 30003 bytes
  long in UTF-8 but has length 10001: it is not promoted.
\<close>

theorem text_bytes_counterexample:
  "byteLength euro_text > 30000
   \<and> fst (normalize_args ''set'' [Text euro_text] [] False False ready_client) = [WText euro_text]
   \<and> \<not> fst (snd (normalize_args ''set'' [Text euro_text] [] False False ready_client))"
  by (simp add: euro_text_def byteLength_bmp)

section \<open>Quit\<close>




section \<open>Pub/sub acknowledgements\<close>






section \<open>Reply routing in pub/sub mode\<close>

text \<open>
  Claim C5. For a reply dispatched while \<open>pub_sub_mode\<close> is not 0 and that the
  monitor test does not claim: above 1 the counter is decremented and the reply
  goes to \<open>normal_reply\<close>, which shifts the head command; at 1 a reply that is no
  array or has at most two elements goes to \<open>normal_reply\<close>; any other goes to
  \<open>return_pub_sub\<close>, which for \<open>message\<close> and \<open>pmessage\<close> leaves the command
  queue as it is.
\<close>

theorem return_reply_routing:
  assumes "pub_sub_mode c \<noteq> 0" and "\<not> (monitoring c \<and> monitor_line c data \<noteq> None)"
  shows "(pub_sub_mode c > 1 \<longrightarrow>
            return_reply c data = normal_reply (c\<lparr>pub_sub_mode := pub_sub_mode c - 1\<rparr>) data
            \<and> (\<forall>c'. return_reply c data = Inr c' \<longrightarrow>
                  pub_sub_mode c' = pub_sub_mode c - 1
                  \<and> command_queue c \<noteq> [] \<and> command_queue c' = tl (command_queue c)))
       \<and> (pub_sub_mode c = 1 \<and> (\<not> is_array data \<or> array_length data \<le> 2) \<longrightarrow>
            return_reply c data = normal_reply c data
            \<and> (\<forall>c'. return_reply c data = Inr c' \<longrightarrow>
                  command_queue c \<noteq> [] \<and> command_queue c' = tl (command_queue c)))
       \<and> (pub_sub_mode c = 1 \<and> is_array data \<and> array_length data > 2 \<longrightarrow>
            return_reply c data = return_pub_sub c data
            \<and> (to_string (elem data 0) = Inr ''message'' \<or> to_string (elem data 0) = Inr ''pmessage'' \<longrightarrow>
                 (\<forall>c'. return_reply c data = Inr c' \<longrightarrow>
                    command_queue c' = command_queue c \<and> pub_sub_mode c' = 1)))"
proof (intro conjI impI allI)
  assume a: "1 < pub_sub_mode c"
  then show eq: "return_reply c data = normal_reply (c\<lparr>pub_sub_mode := pub_sub_mode c - 1\<rparr>) data"
    using assms(2) by (auto simp: return_reply_def)
  fix c' assume "return_reply c data = Inr c'"
  with eq have "normal_reply (c\<lparr>pub_sub_mode := pub_sub_mode c - 1\<rparr>) data = Inr c'" by simp
  from normal_reply_shifts [OF this]
  show "pub_sub_mode c' = pub_sub_mode c - 1" "command_queue c \<noteq> []"
    "command_queue c' = tl (command_queue c)" by simp_all
next
  assume a: "pub_sub_mode c = 1 \<and> (\<not> is_array data \<or> array_length data \<le> 2)"
  then show eq: "return_reply c data = normal_reply c data"
    using assms(2) by (auto simp: return_reply_def)
  fix c' assume "return_reply c data = Inr c'"
  with eq have "normal_reply c data = Inr c'" by simp
  from normal_reply_shifts [OF this]
  show "command_queue c \<noteq> []" "command_queue c' = tl (command_queue c)" by simp_all
next
  assume a: "pub_sub_mode c = 1 \<and> is_array data \<and> array_length data > 2"
  then show eq: "return_reply c data = return_pub_sub c data"
    using assms(2) by (auto simp: return_reply_def)
  fix c'
  assume m: "to_string (elem data 0) = Inr ''message'' \<or> to_string (elem data 0) = Inr ''pmessage''"
    and "return_reply c data = Inr c'"
  with eq have "return_pub_sub c data = Inr c'" by simp
  from return_pub_sub_message [OF m this] a
  show "command_queue c' = command_queue c" "pub_sub_mode c' = 1" by simp_all
qed


theorem return_reply_routing_witness:
  "pub_sub_mode get_then_sub = 2 \<and> \<not> monitoring get_then_sub
   \<and> command_queue get_then_sub = [get_foo, sub_a]
   \<and> (\<exists>c'. return_reply get_then_sub (Str ''bar'') = Inr c'
          \<and> pub_sub_mode c' = 1 \<and> command_queue c' = [sub_a])"
proof -
  let ?c = "get_then_sub\<lparr>pub_sub_mode := pub_sub_mode get_then_sub - 1\<rparr>"
  have "\<exists>c'. normal_reply ?c (Str ''bar'') = Inr c'"
    by (simp add: normal_reply_def get_then_sub_fields get_foo_def Command_def handle_reply_def Let_def)
  then obtain c' where c': "normal_reply ?c (Str ''bar'') = Inr c'" by blast
  have p: "pub_sub_mode get_then_sub \<noteq> 0" "\<not> (monitoring get_then_sub \<and> monitor_line get_then_sub (Str ''bar'') \<noteq> None)"
    by (simp_all add: get_then_sub_fields)
  have gt: "1 < pub_sub_mode get_then_sub" by (simp add: get_then_sub_fields)
  from return_reply_routing [OF p] gt
  have eq: "return_reply get_then_sub (Str ''bar'') = normal_reply ?c (Str ''bar'')"
    and sh: "\<forall>c'. return_reply get_then_sub (Str ''bar'') = Inr c' \<longrightarrow>
                pub_sub_mode c' = pub_sub_mode get_then_sub - 1
                \<and> command_queue get_then_sub \<noteq> [] \<and> command_queue c' = tl (command_queue get_then_sub)"
    by blast+
  from eq c' have r: "return_reply get_then_sub (Str ''bar'') = Inr c'" by simp
  from sh r have "pub_sub_mode c' = pub_sub_mode get_then_sub - 1"
    "command_queue c' = tl (command_queue get_then_sub)" by blast+
  with r have "return_reply get_then_sub (Str ''bar'') = Inr c' \<and> pub_sub_mode c' = 1 \<and> command_queue c' = [sub_a]"
    by (simp add: get_then_sub_fields)
  with get_then_sub_fields show ?thesis by blast
qed

section \<open>Commands sent while replies are off\<close>






section \<open>The pub/sub counter\<close>

subsection \<open>Every step keeps the invariant\<close>



lemma wrap_last_names: "xs \<noteq> [] \<Longrightarrow> map command (wrap_last cb xs) = map command xs"
  by (induction xs) (auto simp: wrap_last_def)





































subsection \<open>The claim\<close>




end
